theory Spec2Isabelle
  imports Main "HOL-Library.Word" "HOL-Library.Sublist"
begin

section \<open>JavaScript strings\<close>

text \<open>
  A JavaScript string is a sequence of UTF-16 code units. Every operation the
  highlighting code uses (the regular expression classes \<open>\s\<close> and \<open>\S\<close> without the
  \<open>u\<close> flag, \<open>===\<close>, \<open>includes\<close>, template literals, \<open>join\<close>) works on code units.
\<close>

type_synonym jschar = "16 word"
type_synonym jsstring = "jschar list"

text \<open>An ASCII literal of the source, as code units.\<close>

definition js :: "string \<Rightarrow> jsstring" where
  "js s = map of_char s"

text \<open>
  The class \<open>\s\<close> of ECMAScript: WhiteSpace (TAB, VT, FF, SP, NBSP, ZWNBSP and the
  space separators) and LineTerminator (LF, CR, LS, PS). \<open>\S\<close> is its complement.
\<close>

definition isWhiteSpace :: "jschar \<Rightarrow> bool" where
  "isWhiteSpace c =
     (c \<in> set [0x09, 0x0A, 0x0B, 0x0C, 0x0D, 0x20, 0xA0, 0x1680, 0x2028, 0x2029,
                 0x202F, 0x205F, 0x3000, 0xFEFF]
      \<or> (0x2000 \<le> c \<and> c \<le> 0x200A))"

text \<open>
  \<open>text.match(/(\S+|\s+)/g) || []\<close>: the matches from left to right. At each position
  the first alternative \<open>\S+\<close> is tried first and is greedy, then \<open>\s+\<close>. For the empty
  text \<open>match\<close> returns \<open>null\<close> and the result is the empty array.
\<close>

function matchTokens :: "jsstring \<Rightarrow> jsstring list" where
  "matchTokens [] = []"
| "matchTokens (c # cs) =
     (if \<not> isWhiteSpace c
      then (c # takeWhile (\<lambda>x. \<not> isWhiteSpace x) cs)
             # matchTokens (dropWhile (\<lambda>x. \<not> isWhiteSpace x) cs)
      else (c # takeWhile isWhiteSpace cs) # matchTokens (dropWhile isWhiteSpace cs))"
  by pat_completeness auto
termination
  by (relation "measure length") (auto simp: length_dropWhile_le le_imp_less_Suc)

text \<open>\<open>/^\s+$/.test(token)\<close>: the token is one or more whitespace code units.\<close>

definition isWhitespaceToken :: "jsstring \<Rightarrow> bool" where
  "isWhitespaceToken token = (token \<noteq> [] \<and> list_all isWhiteSpace token)"

text \<open>\<open>s.includes(sub)\<close>: \<open>sub\<close> occurs in \<open>s\<close> at some position.\<close>

fun stringIncludes :: "jsstring \<Rightarrow> jsstring \<Rightarrow> bool" where
  "stringIncludes [] sub = (sub = [])"
| "stringIncludes (c # cs) sub = (prefix sub (c # cs) \<or> stringIncludes cs sub)"

text \<open>
  \<open>s.trim()\<close> removes the leading and the trailing white space and line terminators,
  the code units of the class \<open>\s\<close>.
\<close>

definition trim :: "jsstring \<Rightarrow> jsstring" where
  "trim s = rev (dropWhile isWhiteSpace (rev (dropWhile isWhiteSpace s)))"

section \<open>Highlight rules and the colour palette\<close>

text \<open>The interface \<open>HighlightRule\<close> of the settings hook (field \<open>id\<close> is \<open>rule_id\<close> here).\<close>

record HighlightRule =
  rule_id :: jsstring
  word :: jsstring
  color :: jsstring

text \<open>An entry of \<open>HIGHLIGHT_COLORS\<close> (field \<open>value\<close> is \<open>color_value\<close> here).\<close>

record ColorConfig =
  name :: jsstring
  nameFi :: jsstring
  color_value :: jsstring
  textColor :: jsstring

definition HIGHLIGHT_COLORS :: "ColorConfig list" where
  "HIGHLIGHT_COLORS =
    [\<lparr>name = js ''Yellow'', nameFi = js ''Keltainen'', color_value = js ''#FFEB3B'', textColor = js ''#000000''\<rparr>,
     \<lparr>name = js ''Green'', nameFi = js ''Vihre'' @ [0xE4], color_value = js ''#4CAF50'', textColor = js ''#FFFFFF''\<rparr>,
     \<lparr>name = js ''Blue'', nameFi = js ''Sininen'', color_value = js ''#2196F3'', textColor = js ''#FFFFFF''\<rparr>,
     \<lparr>name = js ''Red'', nameFi = js ''Punainen'', color_value = js ''#F44336'', textColor = js ''#FFFFFF''\<rparr>,
     \<lparr>name = js ''Purple'', nameFi = js ''Violetti'', color_value = js ''#9C27B0'', textColor = js ''#FFFFFF''\<rparr>,
     \<lparr>name = js ''Orange'', nameFi = js ''Oranssi'', color_value = js ''#FF9800'', textColor = js ''#FFFFFF''\<rparr>,
     \<lparr>name = js ''Pink'', nameFi = js ''Pinkki'', color_value = js ''#E91E63'', textColor = js ''#FFFFFF''\<rparr>,
     \<lparr>name = js ''Cyan'', nameFi = js ''Syaani'', color_value = js ''#00BCD4'', textColor = js ''#FFFFFF''\<rparr>,
     \<lparr>name = js ''Lime'', nameFi = js ''Limetti'', color_value = js ''#CDDC39'', textColor = js ''#000000''\<rparr>,
     \<lparr>name = js ''Teal'', nameFi = js ''Turkoosi'', color_value = js ''#009688'', textColor = js ''#FFFFFF''\<rparr>]"

text \<open>
  \<open>colorConfig?.textColor || '#000000'\<close> with
  \<open>colorConfig = HIGHLIGHT_COLORS.find(c => c.value === rule.color)\<close>: the text colour of
  the first palette entry with that value; black when there is none (or when the entry's
  text colour is the empty string, which is falsy).
\<close>

definition spanTextColor :: "jsstring \<Rightarrow> jsstring" where
  "spanTextColor ruleColor =
     (case find (\<lambda>c. color_value c = ruleColor) HIGHLIGHT_COLORS of
        None \<Rightarrow> js ''#000000''
      | Some colorConfig \<Rightarrow>
          if textColor colorConfig = [] then js ''#000000'' else textColor colorConfig)"

section \<open>applyHighlights: the rendering as React nodes\<close>

text \<open>
  A node of the returned array is a string or the highlight \<open>span\<close> element. The element
  is given by its key \<open>highlight-N\<close> (the number \<open>N\<close>), the two colours of its style (the
  other style entries are constants of the source), its first child (the token), and the
  inner indicator \<open>span\<close> with the ring sign (U+02DA) when \<open>isPartialMatch\<close> is true (given
  by its \<open>title\<close>, the tooltip; its style and its text are constants of the source).
\<close>

datatype ReactNode =
    TextNode jsstring
  | HighlightSpan (key: nat) (backgroundColor: jsstring) (styleColor: jsstring)
      (child: jsstring) (indicatorTitle: "jsstring option")

text \<open>
  \<open>toLowerCase\<close> is \<open>String.prototype.toLowerCase\<close>, the Unicode case mapping of the
  JavaScript engine. Its table is not part of the repository: the functions take it as
  their first argument.

  The loop \<open>for (const rule of rules)\<close> of \<open>applyHighlights\<close>: \<open>Some\<close> is the element
  pushed before \<open>break\<close> (then \<open>matched\<close> is true), \<open>None\<close> is the loop running to its end
  with \<open>matched\<close> still false.
\<close>

fun highlightRulesLoop ::
  "(jsstring \<Rightarrow> jsstring) \<Rightarrow> bool \<Rightarrow> jsstring \<Rightarrow> nat \<Rightarrow> jsstring \<Rightarrow> HighlightRule list
     \<Rightarrow> ReactNode option" where
  "highlightRulesLoop toLowerCase partialMatch partialMatchTooltip keyIndex token [] = None"
| "highlightRulesLoop toLowerCase partialMatch partialMatchTooltip keyIndex token (rule # rest) =
     (let ruleWord = toLowerCase (word rule);
          tokenLower = toLowerCase token;
          (isMatch, isPartialMatch) =
            (if tokenLower = ruleWord then (True, False)
             else if partialMatch \<and> stringIncludes tokenLower ruleWord then (True, True)
             else (False, False))
      in if isMatch
         then Some (HighlightSpan keyIndex (color rule) (spanTextColor (color rule)) token
                      (if isPartialMatch then Some partialMatchTooltip else None))
         else highlightRulesLoop toLowerCase partialMatch partialMatchTooltip keyIndex token rest)"

text \<open>
  The body of \<open>tokens.forEach\<close>, on the pair of the array \<open>parts\<close> and the counter
  \<open>keyIndex\<close> that the callback updates.
\<close>

definition highlightToken ::
  "(jsstring \<Rightarrow> jsstring) \<Rightarrow> HighlightRule list \<Rightarrow> bool \<Rightarrow> jsstring
     \<Rightarrow> ReactNode list \<times> nat \<Rightarrow> jsstring \<Rightarrow> ReactNode list \<times> nat" where
  "highlightToken toLowerCase rules partialMatch partialMatchTooltip st token =
     (case st of (parts, keyIndex) \<Rightarrow>
        if isWhitespaceToken token then (parts @ [TextNode token], keyIndex)
        else (case highlightRulesLoop toLowerCase partialMatch partialMatchTooltip keyIndex token rules of
                Some element \<Rightarrow> (parts @ [element], keyIndex + 1)
              | None \<Rightarrow> (parts @ [TextNode token], keyIndex)))"

definition applyHighlights ::
  "(jsstring \<Rightarrow> jsstring) \<Rightarrow> jsstring \<Rightarrow> HighlightRule list \<Rightarrow> bool \<Rightarrow> jsstring
     \<Rightarrow> ReactNode list" where
  "applyHighlights toLowerCase txt rules partialMatch partialMatchTooltip =
     (if length rules = 0 then [TextNode txt]
      else let tokens = matchTokens txt;
               parts = fst (foldl (highlightToken toLowerCase rules partialMatch partialMatchTooltip)
                              ([], 0) tokens)
           in if length parts > 0 then parts else [TextNode txt])"

section \<open>applyHighlightsToHTML: the rendering as an HTML string\<close>

text \<open>The indicator of a partial match: a constant string around the ring sign U+02DA.\<close>

definition partialIndicatorHTML :: jsstring where
  \<open>partialIndicatorHTML =
     js ''<span style="position: absolute; top: -7px; right: -5px; font-size: 2em; line-height: 1; opacity: 0.7;">''
     @ [0x02DA] @ js ''</span>''\<close>

text \<open>
  The template literal of the highlight \<open>span\<close>: the text before \<open>${token}\<close> (with
  \<open>${rule.color}\<close> and the text colour substituted), then the token, then
  \<open>${partialIndicator}\<close>, then the closing tag.
\<close>

definition spanOpenHTML :: "jsstring \<Rightarrow> jsstring \<Rightarrow> jsstring" where
  \<open>spanOpenHTML ruleColor txtColor =
     js ''<span style="background-color: '' @ ruleColor @ js ''; color: '' @ txtColor
     @ js ''; padding: 2px 4px; border-radius: 3px; font-weight: 600; position: relative; display: inline-block;">''\<close>

definition spanCloseHTML :: jsstring where
  "spanCloseHTML = js ''</span>''"

definition spanHTML :: "jsstring \<Rightarrow> jsstring \<Rightarrow> jsstring \<Rightarrow> jsstring \<Rightarrow> jsstring" where
  "spanHTML ruleColor txtColor token partialIndicator =
     spanOpenHTML ruleColor txtColor @ token @ partialIndicator @ spanCloseHTML"

text \<open>
  The loop \<open>for (const rule of rules)\<close> of \<open>applyHighlightsToHTML\<close>: \<open>Some\<close> is the string
  returned from inside the loop, \<open>None\<close> is the loop running to its end.
\<close>

fun htmlRulesLoop ::
  "(jsstring \<Rightarrow> jsstring) \<Rightarrow> bool \<Rightarrow> jsstring \<Rightarrow> HighlightRule list \<Rightarrow> jsstring option" where
  "htmlRulesLoop toLowerCase partialMatch token [] = None"
| "htmlRulesLoop toLowerCase partialMatch token (rule # rest) =
     (let ruleWord = toLowerCase (word rule);
          tokenLower = toLowerCase token;
          (isMatch, isPartialMatch) =
            (if tokenLower = ruleWord then (True, False)
             else if partialMatch \<and> stringIncludes tokenLower ruleWord then (True, True)
             else (False, False))
      in if isMatch
         then (let partialIndicator = (if isPartialMatch then partialIndicatorHTML else [])
               in Some (spanHTML (color rule) (spanTextColor (color rule)) token partialIndicator))
         else htmlRulesLoop toLowerCase partialMatch token rest)"

text \<open>The callback of \<open>tokens.map\<close>.\<close>

definition htmlToken ::
  "(jsstring \<Rightarrow> jsstring) \<Rightarrow> HighlightRule list \<Rightarrow> bool \<Rightarrow> jsstring \<Rightarrow> jsstring" where
  "htmlToken toLowerCase rules partialMatch token =
     (if isWhitespaceToken token then token
      else (case htmlRulesLoop toLowerCase partialMatch token rules of
              Some html \<Rightarrow> html
            | None \<Rightarrow> token))"

definition applyHighlightsToHTML ::
  "(jsstring \<Rightarrow> jsstring) \<Rightarrow> jsstring \<Rightarrow> HighlightRule list \<Rightarrow> bool \<Rightarrow> jsstring" where
  "applyHighlightsToHTML toLowerCase txt rules partialMatch =
     (if length rules = 0 then txt
      else concat (map (htmlToken toLowerCase rules partialMatch) (matchTokens txt)))"

section \<open>exportUtils: the CSV file and the print window\<close>

text \<open>The interface \<open>TranscriptItem\<close> (field \<open>text\<close> is \<open>item_text\<close> here).\<close>

record TranscriptItem =
  timestamp :: jsstring
  item_text :: jsstring

text \<open>\<open>parts.join(sep)\<close> on an array of strings.\<close>

fun joinArray :: "jsstring \<Rightarrow> jsstring list \<Rightarrow> jsstring" where
  "joinArray sep [] = []"
| "joinArray sep [x] = x"
| "joinArray sep (x # y # rest) = x @ sep @ joinArray sep (y # rest)"

text \<open>
  \<open>s.replace(/"/g, '""')\<close>: the string is read from left to right and every quotation
  mark (U+0022) is replaced by two.
\<close>

fun replaceQuotes :: "jsstring \<Rightarrow> jsstring" where
  "replaceQuotes [] = []"
| "replaceQuotes (c # cs) = (if c = 0x22 then [0x22, 0x22] @ replaceQuotes cs else c # replaceQuotes cs)"

text \<open>
  \<open>exportAsCSV\<close>. The function builds the content, puts it into a \<open>Blob\<close> behind the
  byte-order mark U+FEFF, and clicks a hidden link whose \<open>download\<close> attribute is the file
  name. The result here is that download: the string given to the \<open>Blob\<close>, its type and
  the file name. \<open>isoNow\<close> is \<open>new Date().toISOString()\<close>.
\<close>

record Download =
  blobContent :: jsstring
  blobType :: jsstring
  downloadName :: jsstring

definition csvRows :: "TranscriptItem list \<Rightarrow> jsstring list list" where
  "csvRows transcripts =
     map (\<lambda>item. [timestamp item, [0x22] @ replaceQuotes (item_text item) @ [0x22]]) transcripts"

definition csvContent :: "TranscriptItem list \<Rightarrow> jsstring" where
  "csvContent transcripts =
     (let headers = [js ''Timestamp'', js ''Text''];
          rows = csvRows transcripts
      in joinArray [0x0A] ([joinArray (js '','') headers] @ map (\<lambda>row. joinArray (js '','') row) rows))"

definition exportAsCSV :: "jsstring \<Rightarrow> TranscriptItem list \<Rightarrow> jsstring \<Rightarrow> Download" where
  "exportAsCSV isoNow transcripts filename =
     \<lparr>blobContent = [0xFEFF] @ csvContent transcripts,
      blobType = js ''text/csv;charset=utf-8;'',
      downloadName = filename @ js ''_'' @ take 10 isoNow @ js ''.csv''\<rparr>"

text \<open>\<open>String(n)\<close> for a natural number, and \<open>s.padStart(2, '0')\<close>.\<close>

function numberString :: "nat \<Rightarrow> jsstring" where
  "numberString n =
     (if n < 10 then [of_nat (48 + n)]
      else numberString (n div 10) @ [of_nat (48 + n mod 10)])"
  by pat_completeness auto
termination
  by (relation "measure id") auto

definition padStart2 :: "jsstring \<Rightarrow> jsstring" where
  "padStart2 s = replicate (2 - length s) 0x30 @ s"

text \<open>
  The readings of the clock in \<open>exportAsPDF\<close>: the result of \<open>toLocaleDateString\<close> and
  the fields of \<open>now\<close> (\<open>getMonth\<close> counts from 0).
\<close>

record Clock =
  currentDate :: jsstring
  getFullYear :: nat
  getMonth :: nat
  getDate :: nat
  getHours :: nat
  getMinutes :: nat
  getSeconds :: nat

definition pdfFilename :: "Clock \<Rightarrow> jsstring" where
  "pdfFilename now =
     (let year = numberString (getFullYear now);
          month = padStart2 (numberString (getMonth now + 1));
          day = padStart2 (numberString (getDate now));
          hours = padStart2 (numberString (getHours now));
          minutes = padStart2 (numberString (getMinutes now));
          seconds = padStart2 (numberString (getSeconds now));
          stamp = year @ js ''-'' @ month @ js ''-'' @ day @ js ''_'' @ hours @ js ''-''
                    @ minutes @ js ''-'' @ seconds
      in js ''comLedger_'' @ stamp)"

text \<open>
  The constant pieces of the template literal \<open>htmlContent\<close>, between its substitutions,
  and of the inner template literal of one transcript.
\<close>

definition pdfPart1 :: jsstring where
  \<open>pdfPart1 =
     [0x0A]
     @ js ''    <!DOCTYPE html>'' @ [0x0A]
     @ js ''    <html lang="en">'' @ [0x0A]
     @ js ''    <head>'' @ [0x0A]
     @ js ''      <meta charset="utf-8">'' @ [0x0A]
     @ js ''      <title>''\<close>

definition pdfPart2 :: jsstring where
  \<open>pdfPart2 =
     js ''</title>'' @ [0x0A]
     @ js ''      <style>'' @ [0x0A]
     @ js ''        @page {'' @ [0x0A]
     @ js ''          margin: 2cm;'' @ [0x0A]
     @ js ''        }'' @ [0x0A]
     @ js ''        body {'' @ [0x0A]
     @ js ''          font-family: '' @ [0x27] @ js ''Segoe UI'' @ [0x27] @ js '', Tahoma, Geneva, Verdana, sans-serif;'' @ [0x0A]
     @ js ''          line-height: 1.6;'' @ [0x0A]
     @ js ''          color: #333;'' @ [0x0A]
     @ js ''          max-width: 800px;'' @ [0x0A]
     @ js ''          margin: 0 auto;'' @ [0x0A]
     @ js ''          padding: 20px;'' @ [0x0A]
     @ js ''        }'' @ [0x0A]
     @ js ''        h1 {'' @ [0x0A]
     @ js ''          color: #2196F3;'' @ [0x0A]
     @ js ''          border-bottom: 3px solid #2196F3;'' @ [0x0A]
     @ js ''          padding-bottom: 10px;'' @ [0x0A]
     @ js ''          margin-bottom: 30px;'' @ [0x0A]
     @ js ''          font-size: 24px;'' @ [0x0A]
     @ js ''        }'' @ [0x0A]
     @ js ''        .meta {'' @ [0x0A]
     @ js ''          color: #666;'' @ [0x0A]
     @ js ''          font-size: 13px;'' @ [0x0A]
     @ js ''          margin-bottom: 30px;'' @ [0x0A]
     @ js ''        }'' @ [0x0A]
     @ js ''        .transcript {'' @ [0x0A]
     @ js ''          margin-bottom: 25px;'' @ [0x0A]
     @ js ''          padding: 15px;'' @ [0x0A]
     @ js ''          border-left: 4px solid #2196F3;'' @ [0x0A]
     @ js ''          background-color: #f5f5f5;'' @ [0x0A]
     @ js ''          page-break-inside: avoid;'' @ [0x0A]
     @ js ''        }'' @ [0x0A]
     @ js ''        .timestamp {'' @ [0x0A]
     @ js ''          color: #2196F3;'' @ [0x0A]
     @ js ''          font-weight: 600;'' @ [0x0A]
     @ js ''          font-size: 13px;'' @ [0x0A]
     @ js ''          margin-bottom: 8px;'' @ [0x0A]
     @ js ''        }'' @ [0x0A]
     @ js ''        .text {'' @ [0x0A]
     @ js ''          font-size: 14px;'' @ [0x0A]
     @ js ''          line-height: 1.8;'' @ [0x0A]
     @ js ''        }'' @ [0x0A]
     @ js ''        /* Print-specific styles to ensure colors show */'' @ [0x0A]
     @ js ''        @media print {'' @ [0x0A]
     @ js ''          body {'' @ [0x0A]
     @ js ''            padding: 0;'' @ [0x0A]
     @ js ''          }'' @ [0x0A]
     @ js ''          * {'' @ [0x0A]
     @ js ''            -webkit-print-color-adjust: exact !important;'' @ [0x0A]
     @ js ''            print-color-adjust: exact !important;'' @ [0x0A]
     @ js ''            color-adjust: exact !important;'' @ [0x0A]
     @ js ''          }'' @ [0x0A]
     @ js ''        }'' @ [0x0A]
     @ js ''      </style>'' @ [0x0A]
     @ js ''    </head>'' @ [0x0A]
     @ js ''    <body>'' @ [0x0A]
     @ js ''      <h1>''\<close>

definition pdfPart3 :: jsstring where
  \<open>pdfPart3 =
     js ''</h1>'' @ [0x0A]
     @ js ''      <div class="meta">'' @ [0x0A]
     @ js ''        <strong>''\<close>

definition pdfPart4 :: jsstring where
  \<open>pdfPart4 =
     js '':</strong> ''\<close>

definition pdfPart5 :: jsstring where
  \<open>pdfPart5 =
     js ''<br>'' @ [0x0A]
     @ js ''        <strong>''\<close>

definition pdfPart6 :: jsstring where
  \<open>pdfPart6 =
     js '':</strong> ''\<close>

definition pdfPart7 :: jsstring where
  \<open>pdfPart7 =
     [0x0A]
     @ js ''      </div>'' @ [0x0A]
     @ js ''      ''\<close>

definition pdfItem1 :: jsstring where
  \<open>pdfItem1 =
     [0x0A]
     @ js ''        <div class="transcript">'' @ [0x0A]
     @ js ''          <div class="timestamp">'' @ [0xF0, 0x178, 0x2022, 0x2019] @ js '' ''\<close>

definition pdfItem2 :: jsstring where
  \<open>pdfItem2 =
     js ''</div>'' @ [0x0A]
     @ js ''          <div class="text">''\<close>

definition pdfItem3 :: jsstring where
  \<open>pdfItem3 =
     js ''</div>'' @ [0x0A]
     @ js ''        </div>'' @ [0x0A]
     @ js ''      ''\<close>

definition pdfPart8 :: jsstring where
  \<open>pdfPart8 =
     [0x0A]
     @ js ''    </body>'' @ [0x0A]
     @ js ''    </html>'' @ [0x0A]
     @ js ''  ''\<close>

definition pdfItemHTML ::
  "(jsstring \<Rightarrow> jsstring) \<Rightarrow> HighlightRule list \<Rightarrow> bool \<Rightarrow> TranscriptItem \<Rightarrow> jsstring" where
  "pdfItemHTML toLowerCase highlightRules partialMatchHighlight item =
     pdfItem1 @ timestamp item @ pdfItem2
     @ applyHighlightsToHTML toLowerCase (item_text item) highlightRules partialMatchHighlight
     @ pdfItem3"

definition htmlContent ::
  "(jsstring \<Rightarrow> jsstring) \<Rightarrow> Clock \<Rightarrow> TranscriptItem list \<Rightarrow> jsstring \<Rightarrow> jsstring
     \<Rightarrow> jsstring \<Rightarrow> HighlightRule list \<Rightarrow> bool \<Rightarrow> jsstring" where
  "htmlContent toLowerCase now transcripts confirmedTitle dateLabel totalLabel highlightRules
       partialMatchHighlight =
     pdfPart1 @ pdfFilename now @ pdfPart2 @ confirmedTitle @ pdfPart3 @ dateLabel @ pdfPart4
     @ currentDate now @ pdfPart5 @ totalLabel @ pdfPart6 @ numberString (length transcripts)
     @ pdfPart7
     @ joinArray [] (map (pdfItemHTML toLowerCase highlightRules partialMatchHighlight) transcripts)
     @ pdfPart8"

text \<open>
  \<open>exportAsPDF\<close>. \<open>printWindow\<close> is the result of \<open>window.open\<close>: \<open>None\<close> for \<open>null\<close>,
  else the window. The result is the returned boolean and what the function does to the
  window, in order: it writes the document, closes it, and sets the \<open>onload\<close> handler
  (which will focus, print and close the window). The local \<open>timestamp\<close> of the file name
  is \<open>stamp\<close> in \<open>pdfFilename\<close>. The parameter \<open>title\<close> is not used by
  the function body.
\<close>

datatype 'w PrintAction = DocumentWrite 'w jsstring | DocumentClose 'w | SetOnload 'w

definition exportAsPDF ::
  "(jsstring \<Rightarrow> jsstring) \<Rightarrow> 'w option \<Rightarrow> Clock \<Rightarrow> TranscriptItem list \<Rightarrow> jsstring
     \<Rightarrow> jsstring \<Rightarrow> jsstring \<Rightarrow> jsstring \<Rightarrow> HighlightRule list \<Rightarrow> bool
     \<Rightarrow> bool \<times> 'w PrintAction list" where
  "exportAsPDF toLowerCase printWindow now transcripts title confirmedTitle dateLabel totalLabel
       highlightRules partialMatchHighlight =
     (case printWindow of
        None \<Rightarrow> (False, [])
      | Some w \<Rightarrow>
          (True,
           [DocumentWrite w
              (htmlContent toLowerCase now transcripts confirmedTitle dateLabel totalLabel
                 highlightRules partialMatchHighlight),
            DocumentClose w,
            SetOnload w]))"

section \<open>useSettings: the settings and their persistence in localStorage\<close>

text \<open>The type \<open>Language = 'en' | 'fi'\<close> and the string each value is.\<close>

datatype Language = En | Fi

fun languageString :: "Language \<Rightarrow> jsstring" where
  "languageString En = js ''en''"
| "languageString Fi = js ''fi''"

text \<open>The state variables of the hook, with the initial values given to \<open>useState\<close>.\<close>

record Settings =
  language :: Language
  apiKey :: jsstring
  echoCancellation :: bool
  noiseSuppression :: bool
  selectedMicrophoneId :: jsstring
  highlightRules :: "HighlightRule list"
  partialMatchHighlight :: bool
  newestFirst :: bool

definition initialSettings :: Settings where
  "initialSettings =
     \<lparr>language = En, apiKey = [], echoCancellation = True, noiseSuppression = True,
      selectedMicrophoneId = [], highlightRules = [], partialMatchHighlight = True,
      newestFirst = True\<rparr>"

text \<open>
  \<open>localStorage\<close>: a map from keys to strings. \<open>getItem\<close> returns \<open>null\<close> (here \<open>None\<close>) for
  a key that is not stored.
\<close>

type_synonym Storage = "string \<rightharpoonup> jsstring"

definition getItem :: "Storage \<Rightarrow> string \<Rightarrow> jsstring option" where
  "getItem storage k = storage k"

definition setItem :: "string \<Rightarrow> jsstring \<Rightarrow> Storage \<Rightarrow> Storage" where
  "setItem k v storage = storage(k \<mapsto> v)"

definition removeItem :: "string \<Rightarrow> Storage \<Rightarrow> Storage" where
  "removeItem k storage = storage(k := None)"

text \<open>\<open>String(value)\<close> for a boolean.\<close>

definition booleanString :: "bool \<Rightarrow> jsstring" where
  "booleanString b = (if b then js ''true'' else js ''false'')"

text \<open>
  The effect on mount. Each step reads one key and sets one state variable when its guard
  holds: a saved language must be \<open>'en'\<close> or \<open>'fi'\<close>; the API key, the microphone id and
  the rule list are taken when the saved string is truthy (stored and not empty); the
  toggles are taken when a string is stored, and are true when that string is \<open>'true'\<close>.
  \<open>JSON_parse\<close> is \<open>JSON.parse\<close> of the engine, \<open>None\<close> when it throws (the catch block
  ignores it); it is an argument, as \<open>JSON_stringify\<close> is for the updaters below. The state
  variable has the type of a rule list, so the argument returns rule lists only.
\<close>

definition loadLanguage :: "Storage \<Rightarrow> Settings \<Rightarrow> Settings" where
  "loadLanguage storage st =
     (case getItem storage ''language'' of
        None \<Rightarrow> st
      | Some savedLanguage \<Rightarrow>
          if savedLanguage = js ''en'' then st\<lparr>language := En\<rparr>
          else if savedLanguage = js ''fi'' then st\<lparr>language := Fi\<rparr>
          else st)"

definition loadApiKey :: "Storage \<Rightarrow> Settings \<Rightarrow> Settings" where
  "loadApiKey storage st =
     (case getItem storage ''elevenlabs_api_key'' of
        None \<Rightarrow> st
      | Some savedKey \<Rightarrow> if savedKey \<noteq> [] then st\<lparr>apiKey := savedKey\<rparr> else st)"

definition loadEchoCancellation :: "Storage \<Rightarrow> Settings \<Rightarrow> Settings" where
  "loadEchoCancellation storage st =
     (case getItem storage ''echo_cancellation'' of
        None \<Rightarrow> st
      | Some saved \<Rightarrow> st\<lparr>echoCancellation := (saved = js ''true'')\<rparr>)"

definition loadNoiseSuppression :: "Storage \<Rightarrow> Settings \<Rightarrow> Settings" where
  "loadNoiseSuppression storage st =
     (case getItem storage ''noise_suppression'' of
        None \<Rightarrow> st
      | Some saved \<Rightarrow> st\<lparr>noiseSuppression := (saved = js ''true'')\<rparr>)"

definition loadMicrophone :: "Storage \<Rightarrow> Settings \<Rightarrow> Settings" where
  "loadMicrophone storage st =
     (case getItem storage ''selected_microphone_id'' of
        None \<Rightarrow> st
      | Some savedMicrophoneId \<Rightarrow>
          if savedMicrophoneId \<noteq> [] then st\<lparr>selectedMicrophoneId := savedMicrophoneId\<rparr> else st)"

definition loadHighlightRules ::
  "(jsstring \<Rightarrow> HighlightRule list option) \<Rightarrow> Storage \<Rightarrow> Settings \<Rightarrow> Settings" where
  "loadHighlightRules JSON_parse storage st =
     (case getItem storage ''highlight_rules'' of
        None \<Rightarrow> st
      | Some savedHighlightRules \<Rightarrow>
          if savedHighlightRules \<noteq> []
          then (case JSON_parse savedHighlightRules of
                  Some rules \<Rightarrow> st\<lparr>highlightRules := rules\<rparr>
                | None \<Rightarrow> st)
          else st)"

definition loadPartialMatch :: "Storage \<Rightarrow> Settings \<Rightarrow> Settings" where
  "loadPartialMatch storage st =
     (case getItem storage ''partial_match_highlight'' of
        None \<Rightarrow> st
      | Some saved \<Rightarrow> st\<lparr>partialMatchHighlight := (saved = js ''true'')\<rparr>)"

definition loadNewestFirst :: "Storage \<Rightarrow> Settings \<Rightarrow> Settings" where
  "loadNewestFirst storage st =
     (case getItem storage ''newest_first'' of
        None \<Rightarrow> st
      | Some saved \<Rightarrow> st\<lparr>newestFirst := (saved = js ''true'')\<rparr>)"

definition loadOnMount ::
  "(jsstring \<Rightarrow> HighlightRule list option) \<Rightarrow> Storage \<Rightarrow> Settings" where
  "loadOnMount JSON_parse storage =
     (loadNewestFirst storage \<circ> loadPartialMatch storage
        \<circ> loadHighlightRules JSON_parse storage \<circ> loadMicrophone storage
        \<circ> loadNoiseSuppression storage \<circ> loadEchoCancellation storage
        \<circ> loadApiKey storage \<circ> loadLanguage storage) initialSettings"

text \<open>The updaters, on the pair of the state and the storage.\<close>

definition updateLanguage :: "Language \<Rightarrow> Settings \<times> Storage \<Rightarrow> Settings \<times> Storage" where
  "updateLanguage lang s =
     (case s of (st, storage) \<Rightarrow>
        (st\<lparr>language := lang\<rparr>, setItem ''language'' (languageString lang) storage))"

definition updateApiKey :: "jsstring \<Rightarrow> Settings \<times> Storage \<Rightarrow> Settings \<times> Storage" where
  "updateApiKey k s =
     (case s of (st, storage) \<Rightarrow>
        (st\<lparr>apiKey := k\<rparr>,
         if k \<noteq> [] then setItem ''elevenlabs_api_key'' k storage
         else removeItem ''elevenlabs_api_key'' storage))"

definition updateEchoCancellation :: "bool \<Rightarrow> Settings \<times> Storage \<Rightarrow> Settings \<times> Storage" where
  "updateEchoCancellation b s =
     (case s of (st, storage) \<Rightarrow>
        (st\<lparr>echoCancellation := b\<rparr>, setItem ''echo_cancellation'' (booleanString b) storage))"

definition updateNoiseSuppression :: "bool \<Rightarrow> Settings \<times> Storage \<Rightarrow> Settings \<times> Storage" where
  "updateNoiseSuppression b s =
     (case s of (st, storage) \<Rightarrow>
        (st\<lparr>noiseSuppression := b\<rparr>, setItem ''noise_suppression'' (booleanString b) storage))"

definition updateMicrophone :: "jsstring \<Rightarrow> Settings \<times> Storage \<Rightarrow> Settings \<times> Storage" where
  "updateMicrophone deviceId s =
     (case s of (st, storage) \<Rightarrow>
        (st\<lparr>selectedMicrophoneId := deviceId\<rparr>,
         setItem ''selected_microphone_id'' deviceId storage))"

text \<open>
  \<open>addHighlightRule\<close>: \<open>now\<close> is \<open>Date.now().toString()\<close>, the id of the new rule.
\<close>

definition addHighlightRule ::
  "(HighlightRule list \<Rightarrow> jsstring) \<Rightarrow> jsstring \<Rightarrow> jsstring \<Rightarrow> jsstring
     \<Rightarrow> Settings \<times> Storage \<Rightarrow> Settings \<times> Storage" where
  "addHighlightRule JSON_stringify now w c s =
     (case s of (st, storage) \<Rightarrow>
        let newRule = \<lparr>rule_id = now, word = trim w, color = c\<rparr>;
            updated = highlightRules st @ [newRule]
        in (st\<lparr>highlightRules := updated\<rparr>,
            setItem ''highlight_rules'' (JSON_stringify updated) storage))"

definition removeHighlightRule ::
  "(HighlightRule list \<Rightarrow> jsstring) \<Rightarrow> jsstring
     \<Rightarrow> Settings \<times> Storage \<Rightarrow> Settings \<times> Storage" where
  "removeHighlightRule JSON_stringify i s =
     (case s of (st, storage) \<Rightarrow>
        let updated = filter (\<lambda>rule. rule_id rule \<noteq> i) (highlightRules st)
        in (st\<lparr>highlightRules := updated\<rparr>,
            setItem ''highlight_rules'' (JSON_stringify updated) storage))"

definition updatePartialMatchHighlight ::
  "bool \<Rightarrow> Settings \<times> Storage \<Rightarrow> Settings \<times> Storage" where
  "updatePartialMatchHighlight b s =
     (case s of (st, storage) \<Rightarrow>
        (st\<lparr>partialMatchHighlight := b\<rparr>,
         setItem ''partial_match_highlight'' (booleanString b) storage))"

definition updateNewestFirst :: "bool \<Rightarrow> Settings \<times> Storage \<Rightarrow> Settings \<times> Storage" where
  "updateNewestFirst b s =
     (case s of (st, storage) \<Rightarrow>
        (st\<lparr>newestFirst := b\<rparr>, setItem ''newest_first'' (booleanString b) storage))"

section \<open>The page: the list of confirmed transcripts\<close>

text \<open>
  An entry of \<open>transcriptsWithTimestamps\<close> (the fields \<open>id\<close>, \<open>text\<close> and \<open>timestamp\<close>), and
  the part of the page's state that the transcript handlers read and write: the list and
  the ref with the latest partial transcript.
\<close>

record TranscriptEntry =
  entry_id :: jsstring
  entry_text :: jsstring
  entry_timestamp :: jsstring

record Page =
  transcriptsWithTimestamps :: "TranscriptEntry list"
  lastPartialTranscriptRef :: jsstring

definition initialPage :: Page where
  "initialPage = \<lparr>transcriptsWithTimestamps = [], lastPartialTranscriptRef = []\<rparr>"

text \<open>
  The handlers. \<open>clock\<close> is the time string of \<open>toLocaleTimeString\<close> and \<open>newId\<close> the
  string made from \<open>Date.now()\<close> and \<open>Math.random()\<close>. The function given to
  \<open>setTranscriptsWithTimestamps\<close> is applied to the list (\<open>prev\<close>).
\<close>

definition onDisconnect :: "jsstring \<Rightarrow> jsstring \<Rightarrow> Page \<Rightarrow> Page" where
  "onDisconnect clock newId page =
     (let partialText = lastPartialTranscriptRef page
      in if partialText \<noteq> [] \<and> trim partialText \<noteq> []
         then page\<lparr>transcriptsWithTimestamps :=
                     (let prev = transcriptsWithTimestamps page
                      in if list_ex (\<lambda>t. entry_text t = partialText) prev then prev
                         else prev @ [\<lparr>entry_id = newId, entry_text = partialText,
                                       entry_timestamp = clock\<rparr>]),
                   lastPartialTranscriptRef := []\<rparr>
         else page)"

definition onPartialTranscript :: "jsstring \<Rightarrow> Page \<Rightarrow> Page" where
  "onPartialTranscript dataText page = page\<lparr>lastPartialTranscriptRef := dataText\<rparr>"

definition onCommittedTranscriptWithTimestamps ::
  "jsstring \<Rightarrow> jsstring \<Rightarrow> jsstring \<Rightarrow> Page \<Rightarrow> Page" where
  "onCommittedTranscriptWithTimestamps dataText clock newId page =
     page\<lparr>lastPartialTranscriptRef := [],
          transcriptsWithTimestamps :=
            (let prev = transcriptsWithTimestamps page
             in if list_ex (\<lambda>t. entry_text t = dataText) prev then prev
                else prev @ [\<lparr>entry_id = newId, entry_text = dataText,
                              entry_timestamp = clock\<rparr>])\<rparr>"

text \<open>\<open>handleClearTranscripts\<close>; \<open>confirmed\<close> is the answer of \<open>window.confirm\<close>.\<close>

definition handleClearTranscripts :: "bool \<Rightarrow> Page \<Rightarrow> Page" where
  "handleClearTranscripts confirmed page =
     (if confirmed then page\<lparr>transcriptsWithTimestamps := []\<rparr> else page)"

text \<open>
  The events that reach these handlers, and a run of the page from its initial state. The
  other handlers of the page do not write the list or the ref.
\<close>

datatype PageEvent =
    Disconnect jsstring jsstring
  | PartialTranscript jsstring
  | CommittedTranscript jsstring jsstring jsstring
  | ClearTranscripts bool

fun pageStep :: "Page \<Rightarrow> PageEvent \<Rightarrow> Page" where
  "pageStep page (Disconnect clock newId) = onDisconnect clock newId page"
| "pageStep page (PartialTranscript dataText) = onPartialTranscript dataText page"
| "pageStep page (CommittedTranscript dataText clock newId) =
     onCommittedTranscriptWithTimestamps dataText clock newId page"
| "pageStep page (ClearTranscripts confirmed) = handleClearTranscripts confirmed page"

definition runPage :: "PageEvent list \<Rightarrow> Page" where
  "runPage events = foldl pageStep initialPage events"

section \<open>The matching rule in the specification's words\<close>

text \<open>
  A token matches a rule when the lowercased token equals the lowercased rule word (exact
  match), or partial matching is enabled and the lowercased rule word is a substring of
  the lowercased token (partial match). \<open>sublist\<close> is the contiguous-substring relation.
\<close>

definition specMatch :: "(jsstring \<Rightarrow> jsstring) \<Rightarrow> bool \<Rightarrow> jsstring \<Rightarrow> HighlightRule \<Rightarrow> bool" where
  "specMatch toLowerCase partialMatch token rule =
     (toLowerCase token = toLowerCase (word rule)
      \<or> (partialMatch \<and> sublist (toLowerCase (word rule)) (toLowerCase token)))"

text \<open>
  The matching decision for one token, separated from its rendering: a token is left plain
  or is marked with the first rule that matches it and with the kind of the match
  (\<open>True\<close> for a partial match).
\<close>

datatype Annotation = Plain jsstring | Marked jsstring HighlightRule bool

definition annotate ::
  "(jsstring \<Rightarrow> jsstring) \<Rightarrow> HighlightRule list \<Rightarrow> bool \<Rightarrow> jsstring \<Rightarrow> Annotation" where
  "annotate toLowerCase rules partialMatch token =
     (if isWhitespaceToken token then Plain token
      else (case find (specMatch toLowerCase partialMatch token) rules of
              None \<Rightarrow> Plain token
            | Some rule \<Rightarrow> Marked token rule (toLowerCase token \<noteq> toLowerCase (word rule))))"

text \<open>The two renderings of an annotated token list.\<close>

fun reactView :: "jsstring \<Rightarrow> nat \<Rightarrow> Annotation list \<Rightarrow> ReactNode list" where
  "reactView tooltip k [] = []"
| "reactView tooltip k (Plain token # rest) = TextNode token # reactView tooltip k rest"
| "reactView tooltip k (Marked token rule partial # rest) =
     HighlightSpan k (color rule) (spanTextColor (color rule)) token
       (if partial then Some tooltip else None) # reactView tooltip (Suc k) rest"

fun htmlView :: "Annotation \<Rightarrow> jsstring" where
  "htmlView (Plain token) = token"
| "htmlView (Marked token rule partial) =
     spanHTML (color rule) (spanTextColor (color rule)) token
       (if partial then partialIndicatorHTML else [])"

text \<open>
  The rule at index \<open>i\<close> highlights the token, read off what the callback of
  \<open>tokens.map\<close> returns for the token: with the rules before \<open>i\<close> only, the token is
  returned as it is; with the rules up to \<open>i\<close> it is returned as with the whole list; and
  with the whole list it is the highlight \<open>span\<close> of the rule at \<open>i\<close>, without or with
  the indicator.
\<close>

definition htmlHighlightedBy ::
  "(jsstring \<Rightarrow> jsstring) \<Rightarrow> bool \<Rightarrow> jsstring \<Rightarrow> HighlightRule list \<Rightarrow> nat \<Rightarrow> bool" where
  "htmlHighlightedBy toLowerCase partialMatch token rules i =
     (i < length rules
      \<and> htmlToken toLowerCase (take i rules) partialMatch token = token
      \<and> htmlToken toLowerCase (take (Suc i) rules) partialMatch token
          = htmlToken toLowerCase rules partialMatch token
      \<and> (htmlToken toLowerCase rules partialMatch token
            = spanHTML (color (rules ! i)) (spanTextColor (color (rules ! i))) token []
          \<or> htmlToken toLowerCase rules partialMatch token
            = spanHTML (color (rules ! i)) (spanTextColor (color (rules ! i))) token
                partialIndicatorHTML))"

text \<open>
  The same for the body of \<open>tokens.forEach\<close>, read off the node it pushes to an empty
  array with the counter at 0.
\<close>

definition reactHighlightedBy ::
  "(jsstring \<Rightarrow> jsstring) \<Rightarrow> bool \<Rightarrow> jsstring \<Rightarrow> jsstring \<Rightarrow> HighlightRule list \<Rightarrow> nat
     \<Rightarrow> bool" where
  "reactHighlightedBy toLowerCase partialMatch tooltip token rules i =
     (i < length rules
      \<and> highlightToken toLowerCase (take i rules) partialMatch tooltip ([], 0) token
          = ([TextNode token], 0)
      \<and> highlightToken toLowerCase (take (Suc i) rules) partialMatch tooltip ([], 0) token
          = highlightToken toLowerCase rules partialMatch tooltip ([], 0) token
      \<and> (highlightToken toLowerCase rules partialMatch tooltip ([], 0) token
            = ([HighlightSpan 0 (color (rules ! i)) (spanTextColor (color (rules ! i))) token None], 1)
          \<or> highlightToken toLowerCase rules partialMatch tooltip ([], 0) token
            = ([HighlightSpan 0 (color (rules ! i)) (spanTextColor (color (rules ! i))) token
                  (Some tooltip)], 1)))"

text \<open>
  A token is highlighted, in the specification's words: it is not white space and some
  rule of the list matches it. The number in the key of a highlight element is the
  number of highlighted tokens before it.
\<close>

definition specHighlighted ::
  "(jsstring \<Rightarrow> jsstring) \<Rightarrow> HighlightRule list \<Rightarrow> bool \<Rightarrow> jsstring \<Rightarrow> bool" where
  "specHighlighted toLowerCase rules partialMatch token =
     (\<not> isWhitespaceToken token \<and> list_ex (specMatch toLowerCase partialMatch token) rules)"

text \<open>
  A lowercasing function for the examples: \<open>toLowerCase\<close> on strings of ASCII characters
  (the letters \<open>A\<close> to \<open>Z\<close> are moved to \<open>a\<close> to \<open>z\<close>).
\<close>

definition asciiLower :: "jsstring \<Rightarrow> jsstring" where
  "asciiLower s = map (\<lambda>c. if 0x41 \<le> c \<and> c \<le> 0x5A then c + 0x20 else c) s"

text \<open>
  Example rules: the stem \<open>a\<close> in yellow, the word \<open>ab\<close> in green, a rule with the empty
  word, and the word \<open>cd\<close> in purple.
\<close>

definition ruleA :: HighlightRule where
  "ruleA = \<lparr>rule_id = js ''1'', word = js ''a'', color = js ''#FFEB3B''\<rparr>"

definition ruleAB :: HighlightRule where
  "ruleAB = \<lparr>rule_id = js ''2'', word = js ''ab'', color = js ''#4CAF50''\<rparr>"


definition ruleCD :: HighlightRule where
  "ruleCD = \<lparr>rule_id = js ''4'', word = js ''cd'', color = js ''#9C27B0''\<rparr>"

text \<open>
  The partial match in the specification's words: partial matching is enabled and the
  lowercased rule word is a substring of the lowercased token without being equal to it.
\<close>

definition specPartialMatch ::
  "(jsstring \<Rightarrow> jsstring) \<Rightarrow> bool \<Rightarrow> jsstring \<Rightarrow> HighlightRule \<Rightarrow> bool" where
  "specPartialMatch toLowerCase partialMatch token rule =
     (partialMatch \<and> sublist (toLowerCase (word rule)) (toLowerCase token)
      \<and> toLowerCase token \<noteq> toLowerCase (word rule))"

section \<open>The JSON text of a rule list\<close>

text \<open>
  \<open>JSON.stringify\<close> and \<open>JSON.parse\<close> belong to the JavaScript engine; the settings hook
  takes them as arguments. This section gives the text that \<open>JSON.stringify\<close> produces
  for an array of rules (objects with the string properties \<open>id\<close>, \<open>word\<close> and \<open>color\<close>,
  in this order, which is the order in which \<open>addHighlightRule\<close> creates them), and a
  parser of the texts of that form (\<open>JSON.parse\<close> accepts more: white space between the
  tokens, other properties and values).

  A string is quoted as ECMAScript's QuoteJSONString does: the quotation mark, the
  backslash and the control characters are escaped, and so is a surrogate code unit that
  is not part of a pair.
\<close>

definition hexDigit :: "nat \<Rightarrow> jschar" where
  "hexDigit n = (if n < 10 then of_nat (48 + n) else of_nat (87 + n))"

definition unicodeEscape :: "jschar \<Rightarrow> jsstring" where
  "unicodeEscape c =
     [0x5C, 0x75, hexDigit (unat c div 4096), hexDigit (unat c div 256 mod 16),
      hexDigit (unat c div 16 mod 16), hexDigit (unat c mod 16)]"

definition isLeadSurrogate :: "jschar \<Rightarrow> bool" where
  "isLeadSurrogate c = (0xD800 \<le> c \<and> c \<le> 0xDBFF)"

definition isTrailSurrogate :: "jschar \<Rightarrow> bool" where
  "isTrailSurrogate c = (0xDC00 \<le> c \<and> c \<le> 0xDFFF)"

definition quoteCodeUnit :: "jschar \<Rightarrow> jsstring" where
  "quoteCodeUnit c =
     (if c = 0x08 then [0x5C, 0x62]
      else if c = 0x09 then [0x5C, 0x74]
      else if c = 0x0A then [0x5C, 0x6E]
      else if c = 0x0C then [0x5C, 0x66]
      else if c = 0x0D then [0x5C, 0x72]
      else if c = 0x22 then [0x5C, 0x22]
      else if c = 0x5C then [0x5C, 0x5C]
      else if c < 0x20 then unicodeEscape c
      else [c])"

fun quoteBody :: "jsstring \<Rightarrow> jsstring" where
  "quoteBody [] = []"
| "quoteBody [c] =
     (if isLeadSurrogate c \<or> isTrailSurrogate c then unicodeEscape c else quoteCodeUnit c)"
| "quoteBody (c # d # rest) =
     (if isLeadSurrogate c \<and> isTrailSurrogate d then c # d # quoteBody rest
      else if isLeadSurrogate c \<or> isTrailSurrogate c then unicodeEscape c @ quoteBody (d # rest)
      else quoteCodeUnit c @ quoteBody (d # rest))"

definition quoteJSONString :: "jsstring \<Rightarrow> jsstring" where
  "quoteJSONString s = [0x22] @ quoteBody s @ [0x22]"

definition stringifyRule :: "HighlightRule \<Rightarrow> jsstring" where
  \<open>stringifyRule rule =
     js ''{"id":'' @ quoteJSONString (rule_id rule)
     @ js '',"word":'' @ quoteJSONString (word rule)
     @ js '',"color":'' @ quoteJSONString (color rule) @ js ''}''\<close>

definition stringifyRules :: "HighlightRule list \<Rightarrow> jsstring" where
  "stringifyRules rules = js ''['' @ joinArray (js '','') (map stringifyRule rules) @ js '']''"

text \<open>
  The parser. \<open>unquoteBody\<close> reads a string after its opening quotation mark and returns
  the string and the input that follows the closing quotation mark.
\<close>

definition hexValue :: "jschar \<Rightarrow> nat option" where
  "hexValue c =
     (if 0x30 \<le> c \<and> c \<le> 0x39 then Some (unat c - 48)
      else if 0x61 \<le> c \<and> c \<le> 0x66 then Some (unat c - 87)
      else if 0x41 \<le> c \<and> c \<le> 0x46 then Some (unat c - 55)
      else None)"

definition hexCodeUnit :: "jschar \<Rightarrow> jschar \<Rightarrow> jschar \<Rightarrow> jschar \<Rightarrow> jschar option" where
  "hexCodeUnit a b c d =
     (case (hexValue a, hexValue b, hexValue c, hexValue d) of
        (Some p, Some q, Some r, Some s) \<Rightarrow> Some (of_nat (4096 * p + 256 * q + 16 * r + s))
      | _ \<Rightarrow> None)"

definition simpleEscape :: "jschar \<Rightarrow> jschar option" where
  "simpleEscape e =
     (if e = 0x22 then Some 0x22
      else if e = 0x5C then Some 0x5C
      else if e = 0x2F then Some 0x2F
      else if e = 0x62 then Some 0x08
      else if e = 0x66 then Some 0x0C
      else if e = 0x6E then Some 0x0A
      else if e = 0x72 then Some 0x0D
      else if e = 0x74 then Some 0x09
      else None)"

fun unquoteBody :: "jsstring \<Rightarrow> (jsstring \<times> jsstring) option" where
  "unquoteBody [] = None"
| "unquoteBody (c # cs) =
     (if c = 0x22 then Some ([], cs)
      else if c = 0x5C then
        (case cs of
           [] \<Rightarrow> None
         | e # rest \<Rightarrow>
             if e = 0x75 then
               (case rest of
                  h1 # h2 # h3 # h4 # rest' \<Rightarrow>
                    (case hexCodeUnit h1 h2 h3 h4 of
                       None \<Rightarrow> None
                     | Some u \<Rightarrow> map_option (\<lambda>(s, r). (u # s, r)) (unquoteBody rest'))
                | _ \<Rightarrow> None)
             else (case simpleEscape e of
                     None \<Rightarrow> None
                   | Some u \<Rightarrow> map_option (\<lambda>(s, r). (u # s, r)) (unquoteBody rest)))
      else if c < 0x20 then None
      else map_option (\<lambda>(s, r). (c # s, r)) (unquoteBody cs))"

definition expect :: "jsstring \<Rightarrow> jsstring \<Rightarrow> jsstring option" where
  "expect p s = (if prefix p s then Some (drop (length p) s) else None)"

definition parseRule :: "jsstring \<Rightarrow> (HighlightRule \<times> jsstring) option" where
  \<open>parseRule s =
     (case expect (js ''{"id":"'') s of None \<Rightarrow> None | Some s1 \<Rightarrow>
      case unquoteBody s1 of None \<Rightarrow> None | Some (i, s2) \<Rightarrow>
      case expect (js '',"word":"'') s2 of None \<Rightarrow> None | Some s3 \<Rightarrow>
      case unquoteBody s3 of None \<Rightarrow> None | Some (w, s4) \<Rightarrow>
      case expect (js '',"color":"'') s4 of None \<Rightarrow> None | Some s5 \<Rightarrow>
      case unquoteBody s5 of None \<Rightarrow> None | Some (c, s6) \<Rightarrow>
      case expect (js ''}'') s6 of None \<Rightarrow> None | Some s7 \<Rightarrow>
      Some (\<lparr>rule_id = i, word = w, color = c\<rparr>, s7))\<close>

text \<open>The rules after the first one; the first argument bounds the number of rules.\<close>

fun parseMoreRules :: "nat \<Rightarrow> jsstring \<Rightarrow> HighlightRule list option" where
  "parseMoreRules 0 s = None"
| "parseMoreRules (Suc n) s =
     (if s = js '']'' then Some []
      else (case expect (js '','') s of None \<Rightarrow> None | Some s1 \<Rightarrow>
            case parseRule s1 of None \<Rightarrow> None | Some (rule, s2) \<Rightarrow>
            map_option ((#) rule) (parseMoreRules n s2)))"

definition parseRules :: "jsstring \<Rightarrow> HighlightRule list option" where
  "parseRules s =
     (case expect (js ''['') s of None \<Rightarrow> None | Some s1 \<Rightarrow>
      if s1 = js '']'' then Some []
      else (case parseRule s1 of None \<Rightarrow> None | Some (rule, s2) \<Rightarrow>
            map_option ((#) rule) (parseMoreRules (length s2) s2)))"

section \<open>Example inputs\<close>

text \<open>
  An example run: \<open>a\<close> is committed; the partial transcript \<open>a\<close> is not saved again on
  disconnect; the partial transcript \<open>b\<close> is saved on the next disconnect; committing \<open>a\<close>
  again leaves the list of the two entries as it is.
\<close>

definition exampleEvents :: "PageEvent list" where
  "exampleEvents =
     [CommittedTranscript (js ''a'') (js ''10.00.01'') (js ''1''),
      PartialTranscript (js ''a''), Disconnect (js ''10.00.02'') (js ''2''),
      PartialTranscript (js ''b''), Disconnect (js ''10.00.03'') (js ''3'')]"

text \<open>A transcript item whose text has quotation marks, and a reading of the clock.\<close>

definition exampleItem :: TranscriptItem where
  \<open>exampleItem = \<lparr>timestamp = js ''14:30:45'', item_text = js ''say "hi"''\<rparr>\<close>

definition exampleClock :: Clock where
  "exampleClock =
     \<lparr>currentDate = js ''November 30, 2025'', getFullYear = 2025, getMonth = 10, getDate = 30,
      getHours = 9, getMinutes = 5, getSeconds = 0\<rparr>"

section \<open>Tokenization\<close>

lemma concat_matchTokens: "concat (matchTokens inp) = inp"
  by (induction inp rule: matchTokens.induct) auto

lemma matchTokens_Nil_iff: "matchTokens inp = [] \<longleftrightarrow> inp = []"
  by (cases inp) auto

lemma list_all_takeWhile: "list_all P (takeWhile P xs)"
  by (induction xs) simp_all

lemma matchTokens_space:
  "isWhiteSpace c \<Longrightarrow>
     matchTokens (c # cs) = (c # takeWhile isWhiteSpace cs) # matchTokens (dropWhile isWhiteSpace cs)"
  by simp

lemma matchTokens_nonspace:
  "\<not> isWhiteSpace c \<Longrightarrow>
     matchTokens (c # cs) = (c # takeWhile (\<lambda>x. \<not> isWhiteSpace x) cs)
        # matchTokens (dropWhile (\<lambda>x. \<not> isWhiteSpace x) cs)"
  by simp

lemma matchTokens_class:
  "tok \<in> set (matchTokens inp) \<Longrightarrow>
     tok \<noteq> [] \<and> (list_all isWhiteSpace tok \<or> list_all (\<lambda>c. \<not> isWhiteSpace c) tok)"
proof (induction inp rule: matchTokens.induct)
  case 1
  then show ?case by simp
next
  case (2 c cs)
  show ?case
  proof (cases "isWhiteSpace c")
    case True
    from "2.prems" have "tok = c # takeWhile isWhiteSpace cs
        \<or> tok \<in> set (matchTokens (dropWhile isWhiteSpace cs))"
      by (simp only: matchTokens_space [OF True] list.set insert_iff)
    then show ?thesis
    proof
      assume "tok = c # takeWhile isWhiteSpace cs"
      with True show ?thesis by (simp add: list_all_takeWhile)
    next
      assume "tok \<in> set (matchTokens (dropWhile isWhiteSpace cs))"
      with "2.IH"(2) True show ?thesis by blast
    qed
  next
    case False
    from "2.prems" have "tok = c # takeWhile (\<lambda>x. \<not> isWhiteSpace x) cs
        \<or> tok \<in> set (matchTokens (dropWhile (\<lambda>x. \<not> isWhiteSpace x) cs))"
      by (simp only: matchTokens_nonspace [OF False] list.set insert_iff)
    then show ?thesis
    proof
      assume "tok = c # takeWhile (\<lambda>x. \<not> isWhiteSpace x) cs"
      with False show ?thesis by (simp add: list_all_takeWhile)
    next
      assume "tok \<in> set (matchTokens (dropWhile (\<lambda>x. \<not> isWhiteSpace x) cs))"
      with "2.IH"(1) False show ?thesis by blast
    qed
  qed
qed

lemma matchTokens_hd:
  "matchTokens inp = t # ts \<Longrightarrow> inp \<noteq> [] \<and> hd t = hd inp"
proof (cases inp)
  case Nil
  assume "matchTokens inp = t # ts"
  with Nil show ?thesis by simp
next
  case (Cons c cs)
  assume "matchTokens inp = t # ts"
  with Cons show ?thesis by (cases "isWhiteSpace c") auto
qed

lemma alternate_step:
  assumes run: "list_all P t" "t \<noteq> []"
    and rest: "\<forall>i. Suc i < length (matchTokens (dropWhile P cs)) \<longrightarrow>
       isWhiteSpace (last (matchTokens (dropWhile P cs) ! i))
         \<noteq> isWhiteSpace (hd (matchTokens (dropWhile P cs) ! Suc i))"
    and cls: "\<And>x y. P x \<Longrightarrow> \<not> P y \<Longrightarrow> isWhiteSpace x \<noteq> isWhiteSpace y"
  shows "\<forall>i. Suc i < length (t # matchTokens (dropWhile P cs)) \<longrightarrow>
       isWhiteSpace (last ((t # matchTokens (dropWhile P cs)) ! i))
         \<noteq> isWhiteSpace (hd ((t # matchTokens (dropWhile P cs)) ! Suc i))"
proof (intro allI impI)
  fix i
  let ?rest = "matchTokens (dropWhile P cs)"
  assume i: "Suc i < length (t # ?rest)"
  show "isWhiteSpace (last ((t # ?rest) ! i)) \<noteq> isWhiteSpace (hd ((t # ?rest) ! Suc i))"
  proof (cases i)
    case 0
    from i obtain r rs where rr: "?rest = r # rs" by (cases ?rest) auto
    from matchTokens_hd [OF rr] have ne: "dropWhile P cs \<noteq> []" and h: "hd r = hd (dropWhile P cs)"
      by simp_all
    from hd_dropWhile [OF ne] h have "\<not> P (hd r)" by simp
    moreover have "P (last t)"
      using run last_in_set [of t] by (simp add: list_all_iff)
    ultimately have "isWhiteSpace (last t) \<noteq> isWhiteSpace (hd r)" by (rule cls [rotated])
    then show ?thesis by (simp add: 0 rr)
  next
    case (Suc j)
    from i have "Suc j < length ?rest" by (simp add: Suc)
    with rest have "isWhiteSpace (last (?rest ! j)) \<noteq> isWhiteSpace (hd (?rest ! Suc j))" by blast
    then show ?thesis by (simp add: Suc)
  qed
qed

lemma matchTokens_alternate:
  "\<forall>i. Suc i < length (matchTokens inp) \<longrightarrow>
     isWhiteSpace (last (matchTokens inp ! i)) \<noteq> isWhiteSpace (hd (matchTokens inp ! Suc i))"
proof (induction inp rule: matchTokens.induct)
  case 1
  then show ?case by simp
next
  case (2 c cs)
  show ?case
  proof (cases "isWhiteSpace c")
    case True
    have "list_all isWhiteSpace (c # takeWhile isWhiteSpace cs)"
      using True by (simp add: list_all_takeWhile)
    from alternate_step [OF this _ "2.IH"(2)] True show ?thesis
      by (simp only: matchTokens_space [OF True]) blast
  next
    case False
    have "list_all (\<lambda>x. \<not> isWhiteSpace x) (c # takeWhile (\<lambda>x. \<not> isWhiteSpace x) cs)"
      using False by (simp add: list_all_takeWhile)
    from alternate_step [OF this _ "2.IH"(1)] False show ?thesis
      by (simp only: matchTokens_nonspace [OF False]) blast
  qed
qed

section \<open>The two loops over the rules\<close>

lemma stringIncludes_sublist: "stringIncludes s sub = sublist sub s"
proof (induction s)
  case Nil
  show ?case by simp
next
  case (Cons c cs)
  show ?case
  proof (cases sub)
    case Nil
    then show ?thesis by simp
  next
    case (Cons x xs)
    with Cons.IH show ?thesis by (simp add: sublist_Cons_right)
  qed
qed

lemma htmlRulesLoop_find:
  "htmlRulesLoop lc pm tok rules =
     map_option (\<lambda>r. spanHTML (color r) (spanTextColor (color r)) tok
                        (if lc tok = lc (word r) then [] else partialIndicatorHTML))
       (find (specMatch lc pm tok) rules)"
  by (induction rules) (auto simp: specMatch_def stringIncludes_sublist Let_def)

lemma highlightRulesLoop_find:
  "highlightRulesLoop lc pm tip k tok rules =
     map_option (\<lambda>r. HighlightSpan k (color r) (spanTextColor (color r)) tok
                        (if lc tok = lc (word r) then None else Some tip))
       (find (specMatch lc pm tok) rules)"
  by (induction rules) (auto simp: specMatch_def stringIncludes_sublist Let_def)

lemma find_append_first:
  "\<forall>p\<in>set pre. \<not> P p \<Longrightarrow> P r \<Longrightarrow> find P (pre @ r # post) = Some r"
  by (induction pre) simp_all

lemma find_app:
  "find P (xs @ ys) = (case find P xs of None \<Rightarrow> find P ys | Some x \<Rightarrow> Some x)"
  by (induction xs) simp_all

lemma find_None_take:
  "find P (take i xs) = None \<longleftrightarrow> (\<forall>j<i. j < length xs \<longrightarrow> \<not> P (xs ! j))"
  by (simp add: find_None_iff in_set_conv_nth) (metis nth_take length_take min_less_iff_conj)

lemma find_first_index:
  assumes "i < length xs"
  shows "(find P (take i xs) = None \<and> find P (take (Suc i) xs) \<noteq> None)
           \<longleftrightarrow> (P (xs ! i) \<and> (\<forall>j<i. \<not> P (xs ! j)))"
proof -
  have t: "take (Suc i) xs = take i xs @ [xs ! i]"
    using assms by (simp add: take_Suc_conv_app_nth)
  have n: "find P (take i xs) = None \<longleftrightarrow> (\<forall>j<i. \<not> P (xs ! j))"
    using assms by (auto simp: find_None_take)
  show ?thesis
  proof (cases "find P (take i xs)")
    case None
    then have "find P (take (Suc i) xs) = (if P (xs ! i) then Some (xs ! i) else None)"
      unfolding t by (simp add: find_app)
    with None n show ?thesis by auto
  next
    case (Some a)
    with n show ?thesis by auto
  qed
qed

lemma find_first_value:
  assumes "i < length xs" "P (xs ! i)" "\<forall>j<i. \<not> P (xs ! j)"
  shows "find P xs = Some (xs ! i)"
proof -
  have "xs = take i xs @ xs ! i # drop (Suc i) xs"
    using assms(1) by (simp add: id_take_nth_drop)
  moreover have "\<forall>p\<in>set (take i xs). \<not> P p"
    using assms(1,3) by (auto simp: in_set_conv_nth)
  ultimately show ?thesis
    using find_append_first [of "take i xs" P "xs ! i" "drop (Suc i) xs"] assms(2) by simp
qed

section \<open>Both renderings are views of one annotation\<close>

lemma htmlToken_annotate: "htmlToken lc rules pm tok = htmlView (annotate lc rules pm tok)"
  by (simp add: htmlToken_def annotate_def htmlRulesLoop_find split: option.splits)

lemma highlightToken_annotate:
  "\<exists>k'. highlightToken lc rules pm tip (parts, k) tok
           = (parts @ reactView tip k [annotate lc rules pm tok], k')
         \<and> reactView tip k (annotate lc rules pm tok # rest)
           = reactView tip k [annotate lc rules pm tok] @ reactView tip k' rest"
  by (simp add: highlightToken_def annotate_def highlightRulesLoop_find split: option.splits)

lemma foldl_highlightToken:
  "fst (foldl (highlightToken lc rules pm tip) (parts, k) toks)
     = parts @ reactView tip k (map (annotate lc rules pm) toks)"
proof (induction toks arbitrary: parts k)
  case Nil
  show ?case by simp
next
  case (Cons tok toks)
  from highlightToken_annotate [of lc rules pm tip parts k tok "map (annotate lc rules pm) toks"]
  obtain k' where
    step: "highlightToken lc rules pm tip (parts, k) tok
             = (parts @ reactView tip k [annotate lc rules pm tok], k')"
    and view: "reactView tip k (annotate lc rules pm tok # map (annotate lc rules pm) toks)
             = reactView tip k [annotate lc rules pm tok]
                 @ reactView tip k' (map (annotate lc rules pm) toks)"
    by blast
  show ?case
    by (simp only: foldl.simps step Cons.IH list.map view append_assoc)
qed

lemma reactView_Nil_iff: "reactView tip k anns = [] \<longleftrightarrow> anns = []"
  by (induction tip k anns rule: reactView.induct) simp_all

lemma applyHighlights_view:
  "applyHighlights lc inp rules pm tip =
     (if rules = [] \<or> inp = [] then [TextNode inp]
      else reactView tip 0 (map (annotate lc rules pm) (matchTokens inp)))"
  by (simp add: applyHighlights_def Let_def foldl_highlightToken reactView_Nil_iff
        matchTokens_Nil_iff)

lemma annotate_no_rules: "annotate lc [] pm tok = Plain tok"
  by (simp add: annotate_def)

lemma applyHighlightsToHTML_view:
  "applyHighlightsToHTML lc inp rules pm
     = concat (map htmlView (map (annotate lc rules pm) (matchTokens inp)))"
proof (cases "rules = []")
  case True
  have "map htmlView (map (annotate lc [] pm) (matchTokens inp)) = matchTokens inp"
    by (simp add: annotate_no_rules comp_def)
  with True show ?thesis
    by (simp add: applyHighlightsToHTML_def concat_matchTokens)
next
  case False
  have "htmlToken lc rules pm = (\<lambda>tok. htmlView (annotate lc rules pm tok))"
    by (rule ext) (rule htmlToken_annotate)
  with False show ?thesis
    by (simp add: applyHighlightsToHTML_def comp_def)
qed

section \<open>Persistence of the settings\<close>

text \<open>
  Each step of the effect on mount changes one state variable only, from the one key it
  reads.
\<close>

lemma loadLanguage_other:
  "apiKey (loadLanguage storage st) = apiKey st"
  "echoCancellation (loadLanguage storage st) = echoCancellation st"
  "noiseSuppression (loadLanguage storage st) = noiseSuppression st"
  "selectedMicrophoneId (loadLanguage storage st) = selectedMicrophoneId st"
  "highlightRules (loadLanguage storage st) = highlightRules st"
  "partialMatchHighlight (loadLanguage storage st) = partialMatchHighlight st"
  "newestFirst (loadLanguage storage st) = newestFirst st"
  by (simp_all add: loadLanguage_def split: option.splits)

lemma loadLanguage_own:
  "language (loadLanguage storage st) =
     (case getItem storage ''language'' of None \<Rightarrow> language st | Some v \<Rightarrow> if v = js ''en'' then En else if v = js ''fi'' then Fi else language st)"
  by (simp add: loadLanguage_def split: option.splits)

lemma loadApiKey_other:
  "language (loadApiKey storage st) = language st"
  "echoCancellation (loadApiKey storage st) = echoCancellation st"
  "noiseSuppression (loadApiKey storage st) = noiseSuppression st"
  "selectedMicrophoneId (loadApiKey storage st) = selectedMicrophoneId st"
  "highlightRules (loadApiKey storage st) = highlightRules st"
  "partialMatchHighlight (loadApiKey storage st) = partialMatchHighlight st"
  "newestFirst (loadApiKey storage st) = newestFirst st"
  by (simp_all add: loadApiKey_def split: option.splits)

lemma loadApiKey_own:
  "apiKey (loadApiKey storage st) =
     (case getItem storage ''elevenlabs_api_key'' of None \<Rightarrow> apiKey st | Some v \<Rightarrow> if v \<noteq> [] then v else apiKey st)"
  by (simp add: loadApiKey_def split: option.splits)

lemma loadEchoCancellation_other:
  "language (loadEchoCancellation storage st) = language st"
  "apiKey (loadEchoCancellation storage st) = apiKey st"
  "noiseSuppression (loadEchoCancellation storage st) = noiseSuppression st"
  "selectedMicrophoneId (loadEchoCancellation storage st) = selectedMicrophoneId st"
  "highlightRules (loadEchoCancellation storage st) = highlightRules st"
  "partialMatchHighlight (loadEchoCancellation storage st) = partialMatchHighlight st"
  "newestFirst (loadEchoCancellation storage st) = newestFirst st"
  by (simp_all add: loadEchoCancellation_def split: option.splits)

lemma loadEchoCancellation_own:
  "echoCancellation (loadEchoCancellation storage st) =
     (case getItem storage ''echo_cancellation'' of None \<Rightarrow> echoCancellation st | Some v \<Rightarrow> v = js ''true'')"
  by (simp add: loadEchoCancellation_def split: option.splits)

lemma loadNoiseSuppression_other:
  "language (loadNoiseSuppression storage st) = language st"
  "apiKey (loadNoiseSuppression storage st) = apiKey st"
  "echoCancellation (loadNoiseSuppression storage st) = echoCancellation st"
  "selectedMicrophoneId (loadNoiseSuppression storage st) = selectedMicrophoneId st"
  "highlightRules (loadNoiseSuppression storage st) = highlightRules st"
  "partialMatchHighlight (loadNoiseSuppression storage st) = partialMatchHighlight st"
  "newestFirst (loadNoiseSuppression storage st) = newestFirst st"
  by (simp_all add: loadNoiseSuppression_def split: option.splits)

lemma loadNoiseSuppression_own:
  "noiseSuppression (loadNoiseSuppression storage st) =
     (case getItem storage ''noise_suppression'' of None \<Rightarrow> noiseSuppression st | Some v \<Rightarrow> v = js ''true'')"
  by (simp add: loadNoiseSuppression_def split: option.splits)

lemma loadMicrophone_other:
  "language (loadMicrophone storage st) = language st"
  "apiKey (loadMicrophone storage st) = apiKey st"
  "echoCancellation (loadMicrophone storage st) = echoCancellation st"
  "noiseSuppression (loadMicrophone storage st) = noiseSuppression st"
  "highlightRules (loadMicrophone storage st) = highlightRules st"
  "partialMatchHighlight (loadMicrophone storage st) = partialMatchHighlight st"
  "newestFirst (loadMicrophone storage st) = newestFirst st"
  by (simp_all add: loadMicrophone_def split: option.splits)

lemma loadMicrophone_own:
  "selectedMicrophoneId (loadMicrophone storage st) =
     (case getItem storage ''selected_microphone_id'' of None \<Rightarrow> selectedMicrophoneId st | Some v \<Rightarrow> if v \<noteq> [] then v else selectedMicrophoneId st)"
  by (simp add: loadMicrophone_def split: option.splits)

lemma loadHighlightRules_other:
  "language (loadHighlightRules P storage st) = language st"
  "apiKey (loadHighlightRules P storage st) = apiKey st"
  "echoCancellation (loadHighlightRules P storage st) = echoCancellation st"
  "noiseSuppression (loadHighlightRules P storage st) = noiseSuppression st"
  "selectedMicrophoneId (loadHighlightRules P storage st) = selectedMicrophoneId st"
  "partialMatchHighlight (loadHighlightRules P storage st) = partialMatchHighlight st"
  "newestFirst (loadHighlightRules P storage st) = newestFirst st"
  by (simp_all add: loadHighlightRules_def split: option.splits)

lemma loadHighlightRules_own:
  "highlightRules (loadHighlightRules P storage st) =
     (case getItem storage ''highlight_rules'' of None \<Rightarrow> highlightRules st | Some v \<Rightarrow> if v \<noteq> [] then (case P v of Some rules \<Rightarrow> rules | None \<Rightarrow> highlightRules st) else highlightRules st)"
  by (simp add: loadHighlightRules_def split: option.splits)

lemma loadPartialMatch_other:
  "language (loadPartialMatch storage st) = language st"
  "apiKey (loadPartialMatch storage st) = apiKey st"
  "echoCancellation (loadPartialMatch storage st) = echoCancellation st"
  "noiseSuppression (loadPartialMatch storage st) = noiseSuppression st"
  "selectedMicrophoneId (loadPartialMatch storage st) = selectedMicrophoneId st"
  "highlightRules (loadPartialMatch storage st) = highlightRules st"
  "newestFirst (loadPartialMatch storage st) = newestFirst st"
  by (simp_all add: loadPartialMatch_def split: option.splits)

lemma loadPartialMatch_own:
  "partialMatchHighlight (loadPartialMatch storage st) =
     (case getItem storage ''partial_match_highlight'' of None \<Rightarrow> partialMatchHighlight st | Some v \<Rightarrow> v = js ''true'')"
  by (simp add: loadPartialMatch_def split: option.splits)

lemma loadNewestFirst_other:
  "language (loadNewestFirst storage st) = language st"
  "apiKey (loadNewestFirst storage st) = apiKey st"
  "echoCancellation (loadNewestFirst storage st) = echoCancellation st"
  "noiseSuppression (loadNewestFirst storage st) = noiseSuppression st"
  "selectedMicrophoneId (loadNewestFirst storage st) = selectedMicrophoneId st"
  "highlightRules (loadNewestFirst storage st) = highlightRules st"
  "partialMatchHighlight (loadNewestFirst storage st) = partialMatchHighlight st"
  by (simp_all add: loadNewestFirst_def split: option.splits)

lemma loadNewestFirst_own:
  "newestFirst (loadNewestFirst storage st) =
     (case getItem storage ''newest_first'' of None \<Rightarrow> newestFirst st | Some v \<Rightarrow> v = js ''true'')"
  by (simp add: loadNewestFirst_def split: option.splits)

text \<open>The state after the effect on mount, one state variable at a time.\<close>

lemma loadOnMount_fields:
  "language (loadOnMount P storage) =
     (case getItem storage ''language'' of None \<Rightarrow> En | Some v \<Rightarrow> if v = js ''en'' then En else if v = js ''fi'' then Fi else En)"
  "apiKey (loadOnMount P storage) =
     (case getItem storage ''elevenlabs_api_key'' of None \<Rightarrow> [] | Some v \<Rightarrow> if v \<noteq> [] then v else [])"
  "echoCancellation (loadOnMount P storage) =
     (case getItem storage ''echo_cancellation'' of None \<Rightarrow> True | Some v \<Rightarrow> v = js ''true'')"
  "noiseSuppression (loadOnMount P storage) =
     (case getItem storage ''noise_suppression'' of None \<Rightarrow> True | Some v \<Rightarrow> v = js ''true'')"
  "selectedMicrophoneId (loadOnMount P storage) =
     (case getItem storage ''selected_microphone_id'' of None \<Rightarrow> [] | Some v \<Rightarrow> if v \<noteq> [] then v else [])"
  "highlightRules (loadOnMount P storage) =
     (case getItem storage ''highlight_rules'' of None \<Rightarrow> [] | Some v \<Rightarrow> if v \<noteq> [] then (case P v of Some rules \<Rightarrow> rules | None \<Rightarrow> []) else [])"
  "partialMatchHighlight (loadOnMount P storage) =
     (case getItem storage ''partial_match_highlight'' of None \<Rightarrow> True | Some v \<Rightarrow> v = js ''true'')"
  "newestFirst (loadOnMount P storage) =
     (case getItem storage ''newest_first'' of None \<Rightarrow> True | Some v \<Rightarrow> v = js ''true'')"
  by (simp_all only: loadOnMount_def comp_apply loadLanguage_other loadApiKey_other
        loadEchoCancellation_other loadNoiseSuppression_other loadMicrophone_other
        loadHighlightRules_other loadPartialMatch_other loadNewestFirst_other
        loadLanguage_own loadApiKey_own loadEchoCancellation_own loadNoiseSuppression_own
        loadMicrophone_own loadHighlightRules_own loadPartialMatch_own loadNewestFirst_own)
     (simp_all add: initialSettings_def split: option.splits)

section \<open>The JSON text of a rule list is read back\<close>

text \<open>
  The parser reads the text of every rule list back to that list: an escape of four
  hexadecimal digits gives back its code unit, every quoted code unit is read back, and so
  are a quoted string, a rule and the rules of an array.
\<close>

lemma hex_split:
  "4096 * (u div 4096) + 256 * (u div 256 mod 16) + 16 * (u div 16 mod 16) + u mod 16 = (u::nat)"
proof -
  have a: "16 * (u div 16) + u mod 16 = u" by simp
  have "u div 16 div 16 = u div 256" by (simp add: div_mult2_eq)
  then have b: "16 * (u div 256) + u div 16 mod 16 = u div 16"
    using mult_div_mod_eq [of 16 "u div 16"] by simp
  have "u div 256 div 16 = u div 4096" by (simp add: div_mult2_eq)
  then have c: "16 * (u div 4096) + u div 256 mod 16 = u div 256"
    using mult_div_mod_eq [of 16 "u div 256"] by simp
  have "4096 * (u div 4096) + 256 * (u div 256 mod 16) + 16 * (u div 16 mod 16) + u mod 16
      = 16 * (16 * (16 * (u div 4096) + u div 256 mod 16) + u div 16 mod 16) + u mod 16"
    by (simp only: distrib_left mult.assoc [symmetric])
  also have "\<dots> = u" by (simp only: c b a)
  finally show ?thesis .
qed

lemma hexValue_hexDigit: "n < 16 \<Longrightarrow> hexValue (hexDigit n) = Some n"
proof -
  assume n: "n < 16"
  have u: "unat (of_nat k :: 16 word) = k" if "k < 200" for k
    using that by (simp add: unat_of_nat)
  show ?thesis
  proof (cases "n < 10")
    case True
    with u [of "48 + n"] show ?thesis
      by (simp add: hexValue_def hexDigit_def word_le_nat_alt)
  next
    case False
    with n u [of "87 + n"] show ?thesis
      by (simp add: hexValue_def hexDigit_def word_le_nat_alt)
  qed
qed

lemma hexCodeUnit_digits:
  "hexCodeUnit (hexDigit (unat c div 4096)) (hexDigit (unat c div 256 mod 16))
     (hexDigit (unat c div 16 mod 16)) (hexDigit (unat c mod 16)) = Some c"
proof -
  have "unat c < 65536" using unsigned_less [of c, where ?'a = nat] by simp
  then have "unat c div 4096 < 16" by simp
  then show ?thesis
    by (simp add: hexCodeUnit_def hexValue_hexDigit hex_split)
qed


lemma unquote_unicodeEscape:
  "unquoteBody (unicodeEscape c @ t) = map_option (\<lambda>(s, r). (c # s, r)) (unquoteBody t)"
  by (simp add: unicodeEscape_def hexCodeUnit_digits)

lemma unquote_plain:
  "0x20 \<le> c \<Longrightarrow> c \<noteq> 0x22 \<Longrightarrow> c \<noteq> 0x5C \<Longrightarrow>
     unquoteBody (c # t) = map_option (\<lambda>(s, r). (c # s, r)) (unquoteBody t)"
  by (simp add: not_less [symmetric])

lemma unquote_quoteCodeUnit:
  "unquoteBody (quoteCodeUnit c @ t) = map_option (\<lambda>(s, r). (c # s, r)) (unquoteBody t)"
proof -
  consider "c = 0x08" | "c = 0x09" | "c = 0x0A" | "c = 0x0C" | "c = 0x0D" | "c = 0x22" | "c = 0x5C"
    | "c \<notin> {0x08, 0x09, 0x0A, 0x0C, 0x0D, 0x22, 0x5C}" "c < 0x20"
    | "c \<notin> {0x08, 0x09, 0x0A, 0x0C, 0x0D, 0x22, 0x5C}" "\<not> c < 0x20"
    by blast
  then show ?thesis
  proof cases
    case 8
    then show ?thesis
      by (simp add: quoteCodeUnit_def unquote_unicodeEscape)
  next
    case 9
    then show ?thesis
      by (simp add: quoteCodeUnit_def)
  qed (simp_all add: quoteCodeUnit_def simpleEscape_def)
qed


lemma surrogate_plain:
  "isLeadSurrogate c \<or> isTrailSurrogate c \<Longrightarrow> 0x20 \<le> c \<and> c \<noteq> 0x22 \<and> c \<noteq> 0x5C"
proof -
  assume sur: "isLeadSurrogate c \<or> isTrailSurrogate c"
  have low: "(0xD800 :: jschar) \<le> c"
  proof (cases "isLeadSurrogate c")
    case True
    then show ?thesis by (simp add: isLeadSurrogate_def)
  next
    case False
    with sur have "(0xDC00 :: jschar) \<le> c" by (simp add: isTrailSurrogate_def)
    then show ?thesis by (rule order_trans [rotated]) simp
  qed
  from low have a: "(0x20 :: jschar) \<le> c" by (rule order_trans [rotated]) simp
  from low have b: "(0x23 :: jschar) \<le> c" by (rule order_trans [rotated]) simp
  from low have c: "(0x5D :: jschar) \<le> c" by (rule order_trans [rotated]) simp
  from a b c show ?thesis by auto
qed

lemma unquote_quoteBody: "unquoteBody (quoteBody s @ 0x22 # rest) = Some (s, rest)"
proof (induction s rule: quoteBody.induct)
  case 1
  show ?case by simp
next
  case (2 c)
  have base: "unquoteBody (0x22 # rest) = Some ([], rest)" by simp
  show ?case
    by (simp only: quoteBody.simps unquote_unicodeEscape unquote_quoteCodeUnit base
          append_Nil split: if_splits) simp
next
  case (3 c d t)
  show ?case
  proof (cases "isLeadSurrogate c \<and> isTrailSurrogate d")
    case True
    then have eq: "quoteBody (c # d # t) = c # d # quoteBody t" by simp
    from True surrogate_plain [of c] surrogate_plain [of d] "3.IH"(1) show ?thesis
      by (simp add: eq unquote_plain del: unquoteBody.simps quoteBody.simps)
  next
    case False
    show ?thesis
    proof (cases "isLeadSurrogate c \<or> isTrailSurrogate c")
      case True
      with False have eq: "quoteBody (c # d # t) = unicodeEscape c @ quoteBody (d # t)"
        by auto
      from False True "3.IH"(2) show ?thesis
        by (simp add: eq unquote_unicodeEscape del: unquoteBody.simps quoteBody.simps)
    next
      case nosur: False
      with False have eq: "quoteBody (c # d # t) = quoteCodeUnit c @ quoteBody (d # t)"
        by auto
      from False nosur "3.IH"(3) show ?thesis
        by (simp add: eq unquote_quoteCodeUnit del: unquoteBody.simps quoteBody.simps)
    qed
  qed
qed

lemma expect_append: "expect p (p @ s) = Some s"
  by (simp add: expect_def)


lemma joinArray_Cons: "joinArray sep (x # xs) = x @ concat (map (\<lambda>y. sep @ y) xs)"
  by (induction xs arbitrary: x) simp_all

lemma parseRule_stringifyRule: "parseRule (stringifyRule r @ rest) = Some (r, rest)"
proof -
  have l1: \<open>js ''{"id":"'' = js ''{"id":'' @ [0x22]\<close>
    and l2: \<open>js '',"word":"'' = js '',"word":'' @ [0x22]\<close>
    and l3: \<open>js '',"color":"'' = js '',"color":'' @ [0x22]\<close>
    by (simp_all add: js_def)
  have inp: \<open>stringifyRule r @ rest
      = (js ''{"id":'' @ [0x22]) @ (quoteBody (rule_id r) @ 0x22 #
        ((js '',"word":'' @ [0x22]) @ (quoteBody (word r) @ 0x22 #
        ((js '',"color":'' @ [0x22]) @ (quoteBody (color r) @ 0x22 #
        (js ''}'' @ rest))))))\<close>
    by (simp add: stringifyRule_def quoteJSONString_def)
  have "parseRule (stringifyRule r @ rest)
      = Some (\<lparr>rule_id = rule_id r, word = word r, color = color r\<rparr>, rest)"
    unfolding parseRule_def l1 l2 l3 inp
    by (simp only: expect_append unquote_quoteBody option.case prod.case)
  then show ?thesis by simp
qed

lemma length_concat_rules:
  "length rs \<le> length (concat (map (\<lambda>r. js '','' @ stringifyRule r) rs))"
  by (induction rs) (simp_all add: js_def)

lemma parseMoreRules_stringify:
  "length rs < n \<Longrightarrow>
     parseMoreRules n (concat (map (\<lambda>r. js '','' @ stringifyRule r) rs) @ js '']'') = Some rs"
proof (induction rs arbitrary: n)
  case Nil
  then obtain m where "n = Suc m" by (cases n) auto
  then show ?case by simp
next
  case (Cons r rs)
  then obtain m where n: "n = Suc m" and m: "length rs < m" by (cases n) auto
  let ?rest = "concat (map (\<lambda>r. js '','' @ stringifyRule r) rs) @ js '']''"
  have inp: "concat (map (\<lambda>r. js '','' @ stringifyRule r) (r # rs)) @ js '']''
      = js '','' @ (stringifyRule r @ ?rest)"
    by simp
  have ne: "js '','' @ (stringifyRule r @ ?rest) \<noteq> js '']''"
    by (simp add: js_def)
  show ?case
    unfolding n inp
    by (simp only: parseMoreRules.simps ne if_False expect_append option.case
          parseRule_stringifyRule prod.case Cons.IH [OF m] option.map)
qed

lemma parseRules_stringifyRules: "parseRules (stringifyRules rs) = Some rs"
proof (cases rs)
  case Nil
  then show ?thesis
    by (simp add: parseRules_def stringifyRules_def expect_append)
next
  case (Cons r rest)
  let ?tail = "concat (map (\<lambda>r. js '','' @ stringifyRule r) rest) @ js '']''"
  have inp: "stringifyRules rs = js ''['' @ (stringifyRule r @ ?tail)"
    by (simp add: Cons stringifyRules_def joinArray_Cons comp_def del: joinArray.simps)
  have ne: "stringifyRule r @ ?tail \<noteq> js '']''"
    by (simp add: stringifyRule_def js_def)
  have fuel: "length rest < length ?tail"
    using length_concat_rules [of rest] by (simp add: js_def)
  show ?thesis
    unfolding parseRules_def inp
    by (simp only: expect_append option.case ne if_False parseRule_stringifyRule prod.case
          parseMoreRules_stringify [OF fuel] option.map Cons)
qed

lemma stringifyRules_nonempty: "stringifyRules rs \<noteq> []"
  by (simp add: stringifyRules_def js_def)

section \<open>What the callbacks return, and where it stands in the output\<close>

lemma spanHTML_not_token: "spanHTML c t tok ind \<noteq> tok"
proof
  assume "spanHTML c t tok ind = tok"
  then have "length (spanHTML c t tok ind) = length tok" by simp
  then show False
    by (simp add: spanHTML_def spanCloseHTML_def js_def)
qed

lemma htmlToken_find:
  "\<not> isWhitespaceToken tok \<Longrightarrow>
     htmlToken lc rules pm tok =
       (case find (specMatch lc pm tok) rules of
          None \<Rightarrow> tok
        | Some r \<Rightarrow> spanHTML (color r) (spanTextColor (color r)) tok
                     (if lc tok = lc (word r) then [] else partialIndicatorHTML))"
  by (simp add: htmlToken_def htmlRulesLoop_find split: option.splits)

lemma highlightToken_find:
  "\<not> isWhitespaceToken tok \<Longrightarrow>
     highlightToken lc rules pm tip (parts, k) tok =
       (case find (specMatch lc pm tok) rules of
          None \<Rightarrow> (parts @ [TextNode tok], k)
        | Some r \<Rightarrow> (parts @ [HighlightSpan k (color r) (spanTextColor (color r)) tok
                                (if lc tok = lc (word r) then None else Some tip)], k + 1))"
  by (simp add: highlightToken_def highlightRulesLoop_find split: option.splits)

lemma htmlToken_whitespace: "isWhitespaceToken tok \<Longrightarrow> htmlToken lc rules pm tok = tok"
  by (simp add: htmlToken_def)

lemma highlightToken_whitespace:
  "isWhitespaceToken tok \<Longrightarrow>
     highlightToken lc rules pm tip (parts, k) tok = (parts @ [TextNode tok], k)"
  by (simp add: highlightToken_def)

lemma applyHighlightsToHTML_at:
  assumes "rules \<noteq> []" and n: "n < length (matchTokens inp)"
  shows "applyHighlightsToHTML lc inp rules pm
           = concat (map (htmlToken lc rules pm) (take n (matchTokens inp)))
             @ htmlToken lc rules pm (matchTokens inp ! n)
             @ concat (map (htmlToken lc rules pm) (drop (Suc n) (matchTokens inp)))"
proof -
  let ?toks = "matchTokens inp"
  have "concat (map (htmlToken lc rules pm) ?toks)
      = concat (map (htmlToken lc rules pm) (take n ?toks @ ?toks ! n # drop (Suc n) ?toks))"
    using id_take_nth_drop [OF n] by simp
  also have "\<dots> = concat (map (htmlToken lc rules pm) (take n ?toks))
             @ htmlToken lc rules pm (?toks ! n)
             @ concat (map (htmlToken lc rules pm) (drop (Suc n) ?toks))"
    by (simp only: map_append list.map concat_append concat.simps)
  finally show ?thesis
    using assms(1) by (simp add: applyHighlightsToHTML_def)
qed

lemma annotate_Marked_iff:
  "(\<exists>t r p. annotate lc rules pm tok = Marked t r p) \<longleftrightarrow> specHighlighted lc rules pm tok"
proof (cases "find (specMatch lc pm tok) rules")
  case None
  then have "\<not> list_ex (specMatch lc pm tok) rules"
    by (auto simp: find_None_iff list_ex_iff)
  with None show ?thesis
    by (simp add: annotate_def specHighlighted_def)
next
  case (Some r)
  then have "list_ex (specMatch lc pm tok) rules"
    by (auto simp: find_Some_iff list_ex_iff)
  with Some show ?thesis
    by (simp add: annotate_def specHighlighted_def)
qed

lemma length_reactView: "length (reactView tip k anns) = length anns"
  by (induction tip k anns rule: reactView.induct) simp_all

lemma reactView_nth:
  "n < length toks \<Longrightarrow>
     reactView tip k (map (annotate lc rules pm) toks) ! n =
       (case annotate lc rules pm (toks ! n) of
          Plain t \<Rightarrow> TextNode t
        | Marked t r p \<Rightarrow>
            HighlightSpan (k + length (filter (specHighlighted lc rules pm) (take n toks)))
              (color r) (spanTextColor (color r)) t (if p then Some tip else None))"
proof (induction toks arbitrary: n k)
  case Nil
  then show ?case by simp
next
  case (Cons a toks)
  show ?case
  proof (cases n)
    case 0
    then show ?thesis
      by (cases "annotate lc rules pm a") simp_all
  next
    case (Suc m)
    with Cons.prems have m: "m < length toks" by simp
    show ?thesis
    proof (cases "annotate lc rules pm a")
      case (Plain t)
      then have "\<not> specHighlighted lc rules pm a"
        using annotate_Marked_iff [of lc rules pm a] by auto
      with Plain Suc Cons.IH [OF m, of k] show ?thesis
        by (simp split: Annotation.splits)
    next
      case (Marked t r p)
      then have "specHighlighted lc rules pm a"
        using annotate_Marked_iff [of lc rules pm a] by auto
      with Marked Suc Cons.IH [OF m, of "Suc k"] show ?thesis
        by (simp split: Annotation.splits)
    qed
  qed
qed

lemma applyHighlights_at:
  assumes "rules \<noteq> []" and n: "n < length (matchTokens inp)"
  shows "length (applyHighlights lc inp rules pm tip) = length (matchTokens inp)"
    and "applyHighlights lc inp rules pm tip ! n =
       (case annotate lc rules pm (matchTokens inp ! n) of
          Plain t \<Rightarrow> TextNode t
        | Marked t r p \<Rightarrow>
            HighlightSpan (length (filter (specHighlighted lc rules pm) (take n (matchTokens inp))))
              (color r) (spanTextColor (color r)) t (if p then Some tip else None))"
proof -
  from n have "inp \<noteq> []" by (auto simp: matchTokens_Nil_iff [symmetric])
  with assms(1) have view: "applyHighlights lc inp rules pm tip
      = reactView tip 0 (map (annotate lc rules pm) (matchTokens inp))"
    by (simp add: applyHighlights_view)
  show "length (applyHighlights lc inp rules pm tip) = length (matchTokens inp)"
    by (simp add: view length_reactView)
  show "applyHighlights lc inp rules pm tip ! n =
       (case annotate lc rules pm (matchTokens inp ! n) of
          Plain t \<Rightarrow> TextNode t
        | Marked t r p \<Rightarrow>
            HighlightSpan (length (filter (specHighlighted lc rules pm) (take n (matchTokens inp))))
              (color r) (spanTextColor (color r)) t (if p then Some tip else None))"
    using reactView_nth [OF n, of tip 0 lc rules pm]
    by (simp add: view split: Annotation.splits)
qed

text \<open>
  A token that is not white space and whose first matching rule is \<open>r\<close>: what both
  callbacks return, and the token's place in both outputs.
\<close>

lemma first_match_rendering:
  assumes tok: "\<not> isWhitespaceToken tok" and f: "find (specMatch lc pm tok) rules = Some r"
  shows "htmlToken lc rules pm tok
           = spanHTML (color r) (spanTextColor (color r)) tok
               (if lc tok = lc (word r) then [] else partialIndicatorHTML)"
    and "highlightToken lc rules pm tip (parts, k) tok
           = (parts @ [HighlightSpan k (color r) (spanTextColor (color r)) tok
                         (if lc tok = lc (word r) then None else Some tip)], k + 1)"
    and "n < length (matchTokens inp) \<and> matchTokens inp ! n = tok \<longrightarrow>
           applyHighlightsToHTML lc inp rules pm
             = concat (map (htmlToken lc rules pm) (take n (matchTokens inp)))
               @ spanHTML (color r) (spanTextColor (color r)) tok
                   (if lc tok = lc (word r) then [] else partialIndicatorHTML)
               @ concat (map (htmlToken lc rules pm) (drop (Suc n) (matchTokens inp)))
           \<and> length (applyHighlights lc inp rules pm tip) = length (matchTokens inp)
           \<and> applyHighlights lc inp rules pm tip ! n
             = HighlightSpan
                 (length (filter (specHighlighted lc rules pm) (take n (matchTokens inp))))
                 (color r) (spanTextColor (color r)) tok
                 (if lc tok = lc (word r) then None else Some tip)"
proof -
  show html: "htmlToken lc rules pm tok
           = spanHTML (color r) (spanTextColor (color r)) tok
               (if lc tok = lc (word r) then [] else partialIndicatorHTML)"
    using tok f by (simp add: htmlToken_find)
  show "highlightToken lc rules pm tip (parts, k) tok
           = (parts @ [HighlightSpan k (color r) (spanTextColor (color r)) tok
                         (if lc tok = lc (word r) then None else Some tip)], k + 1)"
    using tok f by (simp add: highlightToken_find)
  from f have ne: "rules \<noteq> []" by auto
  have ann: "annotate lc rules pm tok = Marked tok r (lc tok \<noteq> lc (word r))"
    using tok f by (simp add: annotate_def)
  show "n < length (matchTokens inp) \<and> matchTokens inp ! n = tok \<longrightarrow>
           applyHighlightsToHTML lc inp rules pm
             = concat (map (htmlToken lc rules pm) (take n (matchTokens inp)))
               @ spanHTML (color r) (spanTextColor (color r)) tok
                   (if lc tok = lc (word r) then [] else partialIndicatorHTML)
               @ concat (map (htmlToken lc rules pm) (drop (Suc n) (matchTokens inp)))
           \<and> length (applyHighlights lc inp rules pm tip) = length (matchTokens inp)
           \<and> applyHighlights lc inp rules pm tip ! n
             = HighlightSpan
                 (length (filter (specHighlighted lc rules pm) (take n (matchTokens inp))))
                 (color r) (spanTextColor (color r)) tok
                 (if lc tok = lc (word r) then None else Some tip)"
  proof (intro impI, elim conjE)
    assume n: "n < length (matchTokens inp)" and t: "matchTokens inp ! n = tok"
    have a: "applyHighlightsToHTML lc inp rules pm
             = concat (map (htmlToken lc rules pm) (take n (matchTokens inp)))
               @ spanHTML (color r) (spanTextColor (color r)) tok
                   (if lc tok = lc (word r) then [] else partialIndicatorHTML)
               @ concat (map (htmlToken lc rules pm) (drop (Suc n) (matchTokens inp)))"
      using applyHighlightsToHTML_at [OF ne n, of lc pm] by (simp only: t html)
    have b: "length (applyHighlights lc inp rules pm tip) = length (matchTokens inp)"
      by (rule applyHighlights_at(1) [OF ne n])
    have c: "applyHighlights lc inp rules pm tip ! n
             = HighlightSpan
                 (length (filter (specHighlighted lc rules pm) (take n (matchTokens inp))))
                 (color r) (spanTextColor (color r)) tok
                 (if lc tok = lc (word r) then None else Some tip)"
      using applyHighlights_at(2) [OF ne n, of lc pm tip] by (simp add: t ann)
    from a b c show "applyHighlightsToHTML lc inp rules pm
             = concat (map (htmlToken lc rules pm) (take n (matchTokens inp)))
               @ spanHTML (color r) (spanTextColor (color r)) tok
                   (if lc tok = lc (word r) then [] else partialIndicatorHTML)
               @ concat (map (htmlToken lc rules pm) (drop (Suc n) (matchTokens inp)))
           \<and> length (applyHighlights lc inp rules pm tip) = length (matchTokens inp)
           \<and> applyHighlights lc inp rules pm tip ! n
             = HighlightSpan
                 (length (filter (specHighlighted lc rules pm) (take n (matchTokens inp))))
                 (color r) (spanTextColor (color r)) tok
                 (if lc tok = lc (word r) then None else Some tip)"
      by (intro conjI)
  qed
qed

lemma htmlToken_plain_iff:
  "\<not> isWhitespaceToken tok \<Longrightarrow>
     (htmlToken lc rules pm tok = tok) = (find (specMatch lc pm tok) rules = None)"
  by (simp add: htmlToken_find spanHTML_not_token split: option.splits)

lemma highlightToken_plain_iff:
  "\<not> isWhitespaceToken tok \<Longrightarrow>
     (highlightToken lc rules pm tip (parts, k) tok = (parts @ [TextNode tok], k))
       = (find (specMatch lc pm tok) rules = None)"
  by (simp add: highlightToken_find split: option.splits)

lemma find_first_take:
  assumes "i < length xs" "P (xs ! i)" "\<forall>j<i. \<not> P (xs ! j)"
  shows "find P (take (Suc i) xs) = Some (xs ! i)"
proof -
  have "find P (take (Suc i) xs) = Some (take (Suc i) xs ! i)"
    using assms by (intro find_first_value) simp_all
  then show ?thesis by simp
qed

lemma htmlHighlightedBy_iff:
  assumes i: "i < length rules" and tok: "\<not> isWhitespaceToken tok"
  shows "htmlHighlightedBy lc pm tok rules i
           \<longleftrightarrow> specMatch lc pm tok (rules ! i) \<and> (\<forall>j<i. \<not> specMatch lc pm tok (rules ! j))"
proof
  assume h: "htmlHighlightedBy lc pm tok rules i"
  then have plain: "htmlToken lc (take i rules) pm tok = tok"
    and same: "htmlToken lc (take (Suc i) rules) pm tok = htmlToken lc rules pm tok"
    and span: "htmlToken lc rules pm tok \<noteq> tok"
    by (auto simp: htmlHighlightedBy_def spanHTML_not_token)
  from plain have "find (specMatch lc pm tok) (take i rules) = None"
    by (simp add: htmlToken_plain_iff [OF tok])
  moreover from same span have "htmlToken lc (take (Suc i) rules) pm tok \<noteq> tok"
    by simp
  then have "find (specMatch lc pm tok) (take (Suc i) rules) \<noteq> None"
    by (simp only: htmlToken_plain_iff [OF tok] not_False_eq_True)
  ultimately show "specMatch lc pm tok (rules ! i) \<and> (\<forall>j<i. \<not> specMatch lc pm tok (rules ! j))"
    using find_first_index [OF i, of "specMatch lc pm tok"] by blast
next
  assume first: "specMatch lc pm tok (rules ! i) \<and> (\<forall>j<i. \<not> specMatch lc pm tok (rules ! j))"
  then have none: "find (specMatch lc pm tok) (take i rules) = None"
    using find_first_index [OF i, of "specMatch lc pm tok"] by blast
  from first have v: "find (specMatch lc pm tok) rules = Some (rules ! i)"
    using find_first_value [OF i, of "specMatch lc pm tok"] by blast
  from first have v': "find (specMatch lc pm tok) (take (Suc i) rules) = Some (rules ! i)"
    using find_first_take [OF i, of "specMatch lc pm tok"] by blast
  show "htmlHighlightedBy lc pm tok rules i"
    using i by (simp add: htmlHighlightedBy_def htmlToken_find [OF tok] none v v')
qed

lemma reactHighlightedBy_iff:
  assumes i: "i < length rules" and tok: "\<not> isWhitespaceToken tok"
  shows "reactHighlightedBy lc pm tip tok rules i
           \<longleftrightarrow> specMatch lc pm tok (rules ! i) \<and> (\<forall>j<i. \<not> specMatch lc pm tok (rules ! j))"
proof
  assume h: "reactHighlightedBy lc pm tip tok rules i"
  then have plain: "highlightToken lc (take i rules) pm tip ([], 0) tok = ([] @ [TextNode tok], 0)"
    and same: "highlightToken lc (take (Suc i) rules) pm tip ([], 0) tok
                 = highlightToken lc rules pm tip ([], 0) tok"
    and span: "highlightToken lc rules pm tip ([], 0) tok \<noteq> ([] @ [TextNode tok], 0)"
    by (auto simp: reactHighlightedBy_def)
  from plain have "find (specMatch lc pm tok) (take i rules) = None"
    by (simp only: highlightToken_plain_iff [OF tok])
  moreover from same span
  have "highlightToken lc (take (Suc i) rules) pm tip ([], 0) tok \<noteq> ([] @ [TextNode tok], 0)"
    by simp
  then have "find (specMatch lc pm tok) (take (Suc i) rules) \<noteq> None"
    by (simp only: highlightToken_plain_iff [OF tok] not_False_eq_True)
  ultimately show "specMatch lc pm tok (rules ! i) \<and> (\<forall>j<i. \<not> specMatch lc pm tok (rules ! j))"
    using find_first_index [OF i, of "specMatch lc pm tok"] by blast
next
  assume first: "specMatch lc pm tok (rules ! i) \<and> (\<forall>j<i. \<not> specMatch lc pm tok (rules ! j))"
  then have none: "find (specMatch lc pm tok) (take i rules) = None"
    using find_first_index [OF i, of "specMatch lc pm tok"] by blast
  from first have v: "find (specMatch lc pm tok) rules = Some (rules ! i)"
    using find_first_value [OF i, of "specMatch lc pm tok"] by blast
  from first have v': "find (specMatch lc pm tok) (take (Suc i) rules) = Some (rules ! i)"
    using find_first_take [OF i, of "specMatch lc pm tok"] by blast
  show "reactHighlightedBy lc pm tip tok rules i"
    using i by (simp add: reactHighlightedBy_def highlightToken_find [OF tok] none v v')
qed

lemma highlightedBy_whitespace:
  "isWhitespaceToken ws \<Longrightarrow>
     \<not> htmlHighlightedBy lc pm ws rules i \<and> \<not> reactHighlightedBy lc pm tip ws rules i"
  by (simp add: htmlHighlightedBy_def reactHighlightedBy_def htmlToken_whitespace
        highlightToken_whitespace spanHTML_not_token [symmetric])

section \<open>The example rules on the text \<open>cd ab\<close>\<close>

lemma specMatch_ab_ruleA: "specMatch asciiLower True (js ''ab'') ruleA"
  by (simp add: specMatch_def stringIncludes_sublist [symmetric] ruleA_def asciiLower_def js_def)

lemma specMatch_ab_ruleAB: "specMatch asciiLower True (js ''ab'') ruleAB"
  by (simp add: specMatch_def ruleAB_def)

lemma asciiLower_ab_ruleA: "asciiLower (js ''ab'') \<noteq> asciiLower (word ruleA)"
  by (simp add: ruleA_def asciiLower_def js_def)


lemma specMatch_ab_ruleCD: "\<not> specMatch asciiLower True (js ''ab'') ruleCD"
  by (simp add: specMatch_def stringIncludes_sublist [symmetric] ruleCD_def asciiLower_def js_def)

lemma specMatch_cd_ruleCD: "specMatch asciiLower True (js ''cd'') ruleCD"
  by (simp add: specMatch_def ruleCD_def)

lemma not_whitespace_ab: "\<not> isWhitespaceToken (js ''ab'')"
  by (simp add: isWhitespaceToken_def isWhiteSpace_def js_def)

lemma not_whitespace_cd: "\<not> isWhitespaceToken (js ''cd'')"
  by (simp add: isWhitespaceToken_def isWhiteSpace_def js_def)

lemma whitespace_space: "isWhitespaceToken (js '' '')"
  by (simp add: isWhitespaceToken_def isWhiteSpace_def js_def)

lemma matchTokens_cd_ab: "matchTokens (js ''cd ab'') = [js ''cd'', js '' '', js ''ab'']"
  by (simp add: js_def isWhiteSpace_def)

lemma find_ab_example: "find (specMatch asciiLower True (js ''ab'')) [ruleCD, ruleAB] = Some ruleAB"
  by (simp add: specMatch_ab_ruleCD specMatch_ab_ruleAB)

lemma find_ab_example_partial:
  "find (specMatch asciiLower True (js ''ab'')) [ruleCD, ruleA] = Some ruleA"
  by (simp add: specMatch_ab_ruleCD specMatch_ab_ruleA)

lemma specPartialMatch_ab_ruleA: "specPartialMatch asciiLower True (js ''ab'') ruleA"
  by (simp add: specPartialMatch_def stringIncludes_sublist [symmetric] ruleA_def asciiLower_def
        js_def)

lemma specPartialMatch_ab_ruleAB: "\<not> specPartialMatch asciiLower True (js ''ab'') ruleAB"
  by (simp add: specPartialMatch_def ruleAB_def)

text \<open>
  With the rule \<open>cd\<close> first in the list, one token of \<open>cd ab\<close> is highlighted before the
  token \<open>ab\<close>, which stands at index 2.
\<close>

lemma highlighted_before_ab:
  "length (filter (specHighlighted asciiLower (ruleCD # rest) True)
             (take 2 (matchTokens (js ''cd ab'')))) = 1"
  by (simp add: matchTokens_cd_ab specHighlighted_def not_whitespace_cd whitespace_space
        specMatch_cd_ruleCD)

lemma token_ab_at_2:
  "2 < length (matchTokens (js ''cd ab'')) \<and> matchTokens (js ''cd ab'') ! 2 = js ''ab''"
  by (simp add: matchTokens_cd_ab)

section \<open>Properties of the highlighting engine\<close>

text \<open>
  Claim C4. The tokenization concatenates back to the text, and its tokens are the maximal
  runs: each token is a non-empty run of whitespace or of non-whitespace, and a token ends
  where the next code unit is of the other class. Whitespace tokens and tokens that no
  rule matches are emitted unchanged by both renderings. The HTML output is the token
  list with markup put around some tokens: an opening \<open>span\<close> tag of a rule before the
  token, and after it the closing tag, with or without the indicator; without that markup
  the output is the input text. With an empty rule list the output is the input text.
\<close>

theorem C4_whitespace_fidelity:
  "concat (matchTokens inp) = inp
   \<and> (\<forall>tok\<in>set (matchTokens inp).
          tok \<noteq> [] \<and> (list_all isWhiteSpace tok \<or> list_all (\<lambda>c. \<not> isWhiteSpace c) tok))
   \<and> (\<forall>i. Suc i < length (matchTokens inp) \<longrightarrow>
          isWhiteSpace (last (matchTokens inp ! i)) \<noteq> isWhiteSpace (hd (matchTokens inp ! Suc i)))
   \<and> (\<forall>tok. isWhitespaceToken tok \<or> (\<forall>r\<in>set rules. \<not> specMatch lc pm tok r) \<longrightarrow>
          htmlToken lc rules pm tok = tok
          \<and> highlightToken lc rules pm tip (parts, k) tok = (parts @ [TextNode tok], k))
   \<and> (\<exists>segs. map (\<lambda>(pre, tok, post). tok) segs = matchTokens inp
          \<and> concat (map (\<lambda>(pre, tok, post). tok) segs) = inp
          \<and> applyHighlightsToHTML lc inp rules pm
                = concat (map (\<lambda>(pre, tok, post). pre @ tok @ post) segs)
          \<and> (\<forall>(pre, tok, post)\<in>set segs.
                 (pre = [] \<and> post = [])
                 \<or> (\<exists>r\<in>set rules. pre = spanOpenHTML (color r) (spanTextColor (color r))
                        \<and> (post = spanCloseHTML \<or> post = partialIndicatorHTML @ spanCloseHTML))))
   \<and> applyHighlightsToHTML lc inp [] pm = inp"
proof -
  have unchanged: "htmlToken lc rules pm tok = tok
         \<and> highlightToken lc rules pm tip (parts, k) tok = (parts @ [TextNode tok], k)"
    if "isWhitespaceToken tok \<or> (\<forall>r\<in>set rules. \<not> specMatch lc pm tok r)" for tok
  proof -
    from that have "isWhitespaceToken tok \<or> find (specMatch lc pm tok) rules = None"
      by (auto simp: find_None_iff)
    then show ?thesis
      by (auto simp: htmlToken_def highlightToken_def htmlRulesLoop_find highlightRulesLoop_find)
  qed
  define seg where "seg tok =
      (case annotate lc rules pm tok of
         Plain t \<Rightarrow> ([], tok, [])
       | Marked t r p \<Rightarrow> (spanOpenHTML (color r) (spanTextColor (color r)), tok,
                          (if p then partialIndicatorHTML else []) @ spanCloseHTML))" for tok
  have seg_tok: "(\<lambda>(pre, tok, post). tok) (seg tok) = tok" for tok
    by (simp add: seg_def split: Annotation.splits)
  have ann_tok: "annotate lc rules pm tok = Plain t \<Longrightarrow> t = tok"
                "annotate lc rules pm tok = Marked t r p \<Longrightarrow> t = tok \<and> r \<in> set rules" for tok t r p
    by (auto simp: annotate_def find_Some_iff split: if_splits option.splits)
  have seg_html: "(\<lambda>(pre, tok, post). pre @ tok @ post) (seg tok) = htmlView (annotate lc rules pm tok)"
    for tok
    using ann_tok [of tok] by (auto simp: seg_def spanHTML_def split: Annotation.splits)
  have seg_markup: "(\<lambda>(pre, tok, post). (pre = [] \<and> post = [])
                 \<or> (\<exists>r\<in>set rules. pre = spanOpenHTML (color r) (spanTextColor (color r))
                        \<and> (post = spanCloseHTML \<or> post = partialIndicatorHTML @ spanCloseHTML)))
               (seg tok)" for tok
    using ann_tok [of tok] by (auto simp: seg_def split: Annotation.splits)
  let ?segs = "map seg (matchTokens inp)"
  have s1: "map (\<lambda>(pre, tok, post). tok) ?segs = matchTokens inp"
    by (simp add: comp_def seg_tok)
  have s2: "concat (map (\<lambda>(pre, tok, post). tok) ?segs) = inp"
    by (simp only: s1 concat_matchTokens)
  have s3: "applyHighlightsToHTML lc inp rules pm
              = concat (map (\<lambda>(pre, tok, post). pre @ tok @ post) ?segs)"
    by (simp add: applyHighlightsToHTML_view comp_def seg_html)
  have s4: "\<forall>(pre, tok, post)\<in>set ?segs.
                 (pre = [] \<and> post = [])
                 \<or> (\<exists>r\<in>set rules. pre = spanOpenHTML (color r) (spanTextColor (color r))
                        \<and> (post = spanCloseHTML \<or> post = partialIndicatorHTML @ spanCloseHTML))"
    using seg_markup by auto
  have segs: "\<exists>segs. map (\<lambda>(pre, tok, post). tok) segs = matchTokens inp
          \<and> concat (map (\<lambda>(pre, tok, post). tok) segs) = inp
          \<and> applyHighlightsToHTML lc inp rules pm
                = concat (map (\<lambda>(pre, tok, post). pre @ tok @ post) segs)
          \<and> (\<forall>(pre, tok, post)\<in>set segs.
                 (pre = [] \<and> post = [])
                 \<or> (\<exists>r\<in>set rules. pre = spanOpenHTML (color r) (spanTextColor (color r))
                        \<and> (post = spanCloseHTML \<or> post = partialIndicatorHTML @ spanCloseHTML)))"
    using s1 s2 s3 s4 by blast
  have empty: "applyHighlightsToHTML lc inp [] pm = inp"
    by (simp add: applyHighlightsToHTML_def)
  from concat_matchTokens matchTokens_class matchTokens_alternate unchanged segs empty
  show ?thesis by blast
qed

lemma matchTokens_example:
  "matchTokens (js ''ab  cd'') = [js ''ab'', js ''  '', js ''cd'']"
  by (simp add: js_def isWhiteSpace_def)

lemma specMatch_cd_ruleAB: "\<not> specMatch asciiLower True (js ''cd'') ruleAB"
  by (simp add: specMatch_def stringIncludes_sublist [symmetric] ruleAB_def asciiLower_def js_def)

theorem C4_whitespace_fidelity_witness:
  "concat (matchTokens (js ''ab  cd'')) = js ''ab  cd''
   \<and> js ''ab'' \<in> set (matchTokens (js ''ab  cd''))
   \<and> js ''ab'' \<noteq> []
   \<and> (list_all isWhiteSpace (js ''ab'') \<or> list_all (\<lambda>c. \<not> isWhiteSpace c) (js ''ab''))
   \<and> Suc 0 < length (matchTokens (js ''ab  cd''))
   \<and> isWhiteSpace (last (matchTokens (js ''ab  cd'') ! 0))
        \<noteq> isWhiteSpace (hd (matchTokens (js ''ab  cd'') ! Suc 0))
   \<and> isWhitespaceToken (js ''  '')
   \<and> htmlToken asciiLower [ruleAB] True (js ''  '') = js ''  ''
   \<and> \<not> specMatch asciiLower True (js ''cd'') ruleAB
   \<and> htmlToken asciiLower [ruleAB] True (js ''cd'') = js ''cd''
   \<and> highlightToken asciiLower [ruleAB] True (js ''Partial match'') ([], 0) (js ''cd'')
        = ([] @ [TextNode (js ''cd'')], 0)
   \<and> applyHighlightsToHTML asciiLower (js ''ab  cd'') [] True = js ''ab  cd''"
proof -
  note c4 = C4_whitespace_fidelity [of "js ''ab  cd''" "[ruleAB]" asciiLower True
      "js ''Partial match''" "[]" 0]
  have mem: "js ''ab'' \<in> set (matchTokens (js ''ab  cd''))"
    by (simp add: matchTokens_example)
  have len: "Suc 0 < length (matchTokens (js ''ab  cd''))"
    by (simp add: matchTokens_example)
  have ws: "isWhitespaceToken (js ''  '')"
    by (simp add: isWhitespaceToken_def isWhiteSpace_def js_def)
  have nm: "\<forall>r\<in>set [ruleAB]. \<not> specMatch asciiLower True (js ''cd'') r"
    by (simp add: specMatch_cd_ruleAB)
  from c4 have "concat (matchTokens (js ''ab  cd'')) = js ''ab  cd''" by (rule conjunct1)
  moreover from c4 mem have "js ''ab'' \<noteq> []
      \<and> (list_all isWhiteSpace (js ''ab'') \<or> list_all (\<lambda>c. \<not> isWhiteSpace c) (js ''ab''))"
    by blast
  moreover from c4 len have "isWhiteSpace (last (matchTokens (js ''ab  cd'') ! 0))
        \<noteq> isWhiteSpace (hd (matchTokens (js ''ab  cd'') ! Suc 0))"
    by blast
  moreover from c4 ws have "htmlToken asciiLower [ruleAB] True (js ''  '') = js ''  ''"
    by blast
  moreover from c4 nm have "htmlToken asciiLower [ruleAB] True (js ''cd'') = js ''cd''
      \<and> highlightToken asciiLower [ruleAB] True (js ''Partial match'') ([], 0) (js ''cd'')
        = ([] @ [TextNode (js ''cd'')], 0)"
    by blast
  moreover from c4 have "applyHighlightsToHTML asciiLower (js ''ab  cd'') [] True = js ''ab  cd''"
    by blast
  ultimately show ?thesis
    using mem len ws specMatch_cd_ruleAB by blast
qed

text \<open>
  Claim C2. The React rendering and the HTML rendering are two views of one annotated
  token list: the tokens of the text, each left plain or marked with the first rule that
  matches it and with the kind of the match. So both tokenize alike, highlight the same
  tokens, take the colour from the same rule and agree on exact and partial. (With no
  rules, or for the empty text, \<open>applyHighlights\<close> returns the text as its only node.)
\<close>

theorem C2_same_matching_logic:
  "applyHighlightsToHTML lc inp rules pm
     = concat (map htmlView (map (annotate lc rules pm) (matchTokens inp)))
   \<and> applyHighlights lc inp rules pm tip
     = (if rules = [] \<or> inp = [] then [TextNode inp]
        else reactView tip 0 (map (annotate lc rules pm) (matchTokens inp)))"
  by (simp only: applyHighlightsToHTML_view [symmetric] applyHighlights_view [symmetric])

text \<open>
  Claim C1, amended. For every token of the text that is not white space and every index
  \<open>i\<close> of the rule list, the rule at \<open>i\<close> highlights the token if and only if it matches the
  token (exactly, or partially when partial matching is enabled) and no earlier rule of
  the list matches it. This is so for what the callback of \<open>applyHighlightsToHTML\<close>
  returns and for what the callback of \<open>applyHighlights\<close> pushes; a white-space token is
  highlighted by no rule. When the rule at \<open>i\<close> is that first matching rule, both callbacks
  give the highlight of that rule, and so do both functions at the token's place: the HTML
  string has the rule's \<open>span\<close> around the token between the renderings of the tokens
  before and after it, and the node of the React array at the token's index is the rule's
  element, with the number of the highlighted tokens before it in its key.
\<close>

theorem C1_highlighted_by_first_match:
  "i < length rules \<Longrightarrow> \<not> isWhitespaceToken tok \<Longrightarrow>
     (htmlHighlightedBy lc pm tok rules i
        \<longleftrightarrow> specMatch lc pm tok (rules ! i) \<and> (\<forall>j<i. \<not> specMatch lc pm tok (rules ! j)))
   \<and> (reactHighlightedBy lc pm tip tok rules i
        \<longleftrightarrow> specMatch lc pm tok (rules ! i) \<and> (\<forall>j<i. \<not> specMatch lc pm tok (rules ! j)))
   \<and> (isWhitespaceToken ws \<longrightarrow>
         \<not> htmlHighlightedBy lc pm ws rules i \<and> \<not> reactHighlightedBy lc pm tip ws rules i)
   \<and> (specMatch lc pm tok (rules ! i) \<and> (\<forall>j<i. \<not> specMatch lc pm tok (rules ! j)) \<longrightarrow>
         htmlToken lc rules pm tok
           = spanHTML (color (rules ! i)) (spanTextColor (color (rules ! i))) tok
               (if lc tok = lc (word (rules ! i)) then [] else partialIndicatorHTML)
         \<and> highlightToken lc rules pm tip (parts, k) tok
           = (parts @ [HighlightSpan k (color (rules ! i)) (spanTextColor (color (rules ! i))) tok
                         (if lc tok = lc (word (rules ! i)) then None else Some tip)], k + 1)
         \<and> (n < length (matchTokens inp) \<and> matchTokens inp ! n = tok \<longrightarrow>
              applyHighlightsToHTML lc inp rules pm
                = concat (map (htmlToken lc rules pm) (take n (matchTokens inp)))
                  @ spanHTML (color (rules ! i)) (spanTextColor (color (rules ! i))) tok
                      (if lc tok = lc (word (rules ! i)) then [] else partialIndicatorHTML)
                  @ concat (map (htmlToken lc rules pm) (drop (Suc n) (matchTokens inp)))
              \<and> length (applyHighlights lc inp rules pm tip) = length (matchTokens inp)
              \<and> applyHighlights lc inp rules pm tip ! n
                = HighlightSpan
                    (length (filter (specHighlighted lc rules pm) (take n (matchTokens inp))))
                    (color (rules ! i)) (spanTextColor (color (rules ! i))) tok
                    (if lc tok = lc (word (rules ! i)) then None else Some tip)))"
proof -
  assume i: "i < length rules" and tok: "\<not> isWhitespaceToken tok"
  let ?first = "specMatch lc pm tok (rules ! i) \<and> (\<forall>j<i. \<not> specMatch lc pm tok (rules ! j))"
  have h: "htmlHighlightedBy lc pm tok rules i \<longleftrightarrow> ?first"
    by (rule htmlHighlightedBy_iff [OF i tok])
  have r: "reactHighlightedBy lc pm tip tok rules i \<longleftrightarrow> ?first"
    by (rule reactHighlightedBy_iff [OF i tok])
  have w: "isWhitespaceToken ws \<longrightarrow>
         \<not> htmlHighlightedBy lc pm ws rules i \<and> \<not> reactHighlightedBy lc pm tip ws rules i"
    using highlightedBy_whitespace [of ws lc pm rules i tip] by blast
  have v: "find (specMatch lc pm tok) rules = Some (rules ! i)" if ?first
    using that find_first_value [OF i, of "specMatch lc pm tok"] by blast
  have out: "?first \<longrightarrow>
         htmlToken lc rules pm tok
           = spanHTML (color (rules ! i)) (spanTextColor (color (rules ! i))) tok
               (if lc tok = lc (word (rules ! i)) then [] else partialIndicatorHTML)
         \<and> highlightToken lc rules pm tip (parts, k) tok
           = (parts @ [HighlightSpan k (color (rules ! i)) (spanTextColor (color (rules ! i))) tok
                         (if lc tok = lc (word (rules ! i)) then None else Some tip)], k + 1)
         \<and> (n < length (matchTokens inp) \<and> matchTokens inp ! n = tok \<longrightarrow>
              applyHighlightsToHTML lc inp rules pm
                = concat (map (htmlToken lc rules pm) (take n (matchTokens inp)))
                  @ spanHTML (color (rules ! i)) (spanTextColor (color (rules ! i))) tok
                      (if lc tok = lc (word (rules ! i)) then [] else partialIndicatorHTML)
                  @ concat (map (htmlToken lc rules pm) (drop (Suc n) (matchTokens inp)))
              \<and> length (applyHighlights lc inp rules pm tip) = length (matchTokens inp)
              \<and> applyHighlights lc inp rules pm tip ! n
                = HighlightSpan
                    (length (filter (specHighlighted lc rules pm) (take n (matchTokens inp))))
                    (color (rules ! i)) (spanTextColor (color (rules ! i))) tok
                    (if lc tok = lc (word (rules ! i)) then None else Some tip))"
  proof
    assume ?first
    then have fv: "find (specMatch lc pm tok) rules = Some (rules ! i)" by (rule v)
    show "htmlToken lc rules pm tok
           = spanHTML (color (rules ! i)) (spanTextColor (color (rules ! i))) tok
               (if lc tok = lc (word (rules ! i)) then [] else partialIndicatorHTML)
         \<and> highlightToken lc rules pm tip (parts, k) tok
           = (parts @ [HighlightSpan k (color (rules ! i)) (spanTextColor (color (rules ! i))) tok
                         (if lc tok = lc (word (rules ! i)) then None else Some tip)], k + 1)
         \<and> (n < length (matchTokens inp) \<and> matchTokens inp ! n = tok \<longrightarrow>
              applyHighlightsToHTML lc inp rules pm
                = concat (map (htmlToken lc rules pm) (take n (matchTokens inp)))
                  @ spanHTML (color (rules ! i)) (spanTextColor (color (rules ! i))) tok
                      (if lc tok = lc (word (rules ! i)) then [] else partialIndicatorHTML)
                  @ concat (map (htmlToken lc rules pm) (drop (Suc n) (matchTokens inp)))
              \<and> length (applyHighlights lc inp rules pm tip) = length (matchTokens inp)
              \<and> applyHighlights lc inp rules pm tip ! n
                = HighlightSpan
                    (length (filter (specHighlighted lc rules pm) (take n (matchTokens inp))))
                    (color (rules ! i)) (spanTextColor (color (rules ! i))) tok
                    (if lc tok = lc (word (rules ! i)) then None else Some tip))"
      by (intro conjI first_match_rendering(1) [OF tok fv] first_match_rendering(2) [OF tok fv]
            first_match_rendering(3) [OF tok fv])
  qed
  from h r w out show ?thesis by (intro conjI)
qed

text \<open>
  In the text \<open>cd ab\<close> with the rules \<open>cd\<close>, \<open>a\<close>, \<open>ab\<close>, the token \<open>ab\<close> at index 2 is
  highlighted by the rule \<open>a\<close> at index 1: the rule \<open>cd\<close> before it does not match. The
  node at index 2 is the yellow element with the indicator and the key number 1.
\<close>

theorem C1_highlighted_by_first_match_witness:
  "htmlHighlightedBy asciiLower True (js ''ab'') [ruleCD, ruleA, ruleAB] 1
   \<and> reactHighlightedBy asciiLower True (js ''Partial match'') (js ''ab'') [ruleCD, ruleA, ruleAB] 1
   \<and> htmlToken asciiLower [ruleCD, ruleA, ruleAB] True (js ''ab'')
       = spanHTML (color ruleA) (spanTextColor (color ruleA)) (js ''ab'') partialIndicatorHTML
   \<and> highlightToken asciiLower [ruleCD, ruleA, ruleAB] True (js ''Partial match'') ([], 0) (js ''ab'')
       = ([] @ [HighlightSpan 0 (color ruleA) (spanTextColor (color ruleA)) (js ''ab'')
                  (Some (js ''Partial match''))], 0 + 1)
   \<and> applyHighlightsToHTML asciiLower (js ''cd ab'') [ruleCD, ruleA, ruleAB] True
       = concat (map (htmlToken asciiLower [ruleCD, ruleA, ruleAB] True)
                   (take 2 (matchTokens (js ''cd ab''))))
         @ spanHTML (color ruleA) (spanTextColor (color ruleA)) (js ''ab'') partialIndicatorHTML
         @ concat (map (htmlToken asciiLower [ruleCD, ruleA, ruleAB] True)
                     (drop (Suc 2) (matchTokens (js ''cd ab''))))
   \<and> length (applyHighlights asciiLower (js ''cd ab'') [ruleCD, ruleA, ruleAB] True
        (js ''Partial match'')) = length (matchTokens (js ''cd ab''))
   \<and> applyHighlights asciiLower (js ''cd ab'') [ruleCD, ruleA, ruleAB] True (js ''Partial match'') ! 2
       = HighlightSpan 1 (color ruleA) (spanTextColor (color ruleA)) (js ''ab'')
           (Some (js ''Partial match''))"
proof -
  have i: "1 < length [ruleCD, ruleA, ruleAB]" by simp
  have m: "specMatch asciiLower True (js ''ab'') ([ruleCD, ruleA, ruleAB] ! 1)
      \<and> (\<forall>j<1. \<not> specMatch asciiLower True (js ''ab'') ([ruleCD, ruleA, ruleAB] ! j))"
    by (simp add: specMatch_ab_ruleA specMatch_ab_ruleCD)
  have at: "([ruleCD, ruleA, ruleAB] ! 1) = ruleA" by simp
  note c1 = C1_highlighted_by_first_match [OF i not_whitespace_ab, of asciiLower True
      "js ''Partial match''" "js '' ''" "[]" 0 2 "js ''cd ab''"]
  from c1 m have a: "htmlHighlightedBy asciiLower True (js ''ab'') [ruleCD, ruleA, ruleAB] 1"
    by blast
  from c1 m have b: "reactHighlightedBy asciiLower True (js ''Partial match'') (js ''ab'')
      [ruleCD, ruleA, ruleAB] 1"
    by blast
  from c1 m token_ab_at_2 have
    "htmlToken asciiLower [ruleCD, ruleA, ruleAB] True (js ''ab'')
       = spanHTML (color ([ruleCD, ruleA, ruleAB] ! 1))
           (spanTextColor (color ([ruleCD, ruleA, ruleAB] ! 1))) (js ''ab'')
           (if asciiLower (js ''ab'') = asciiLower (word ([ruleCD, ruleA, ruleAB] ! 1)) then []
            else partialIndicatorHTML)
     \<and> highlightToken asciiLower [ruleCD, ruleA, ruleAB] True (js ''Partial match'') ([], 0)
         (js ''ab'')
       = ([] @ [HighlightSpan 0 (color ([ruleCD, ruleA, ruleAB] ! 1))
                  (spanTextColor (color ([ruleCD, ruleA, ruleAB] ! 1))) (js ''ab'')
                  (if asciiLower (js ''ab'') = asciiLower (word ([ruleCD, ruleA, ruleAB] ! 1))
                   then None else Some (js ''Partial match''))], 0 + 1)
     \<and> applyHighlightsToHTML asciiLower (js ''cd ab'') [ruleCD, ruleA, ruleAB] True
       = concat (map (htmlToken asciiLower [ruleCD, ruleA, ruleAB] True)
                   (take 2 (matchTokens (js ''cd ab''))))
         @ spanHTML (color ([ruleCD, ruleA, ruleAB] ! 1))
             (spanTextColor (color ([ruleCD, ruleA, ruleAB] ! 1))) (js ''ab'')
             (if asciiLower (js ''ab'') = asciiLower (word ([ruleCD, ruleA, ruleAB] ! 1)) then []
              else partialIndicatorHTML)
         @ concat (map (htmlToken asciiLower [ruleCD, ruleA, ruleAB] True)
                     (drop (Suc 2) (matchTokens (js ''cd ab''))))
     \<and> length (applyHighlights asciiLower (js ''cd ab'') [ruleCD, ruleA, ruleAB] True
          (js ''Partial match'')) = length (matchTokens (js ''cd ab''))
     \<and> applyHighlights asciiLower (js ''cd ab'') [ruleCD, ruleA, ruleAB] True
          (js ''Partial match'') ! 2
       = HighlightSpan
           (length (filter (specHighlighted asciiLower [ruleCD, ruleA, ruleAB] True)
                      (take 2 (matchTokens (js ''cd ab'')))))
           (color ([ruleCD, ruleA, ruleAB] ! 1))
           (spanTextColor (color ([ruleCD, ruleA, ruleAB] ! 1))) (js ''ab'')
           (if asciiLower (js ''ab'') = asciiLower (word ([ruleCD, ruleA, ruleAB] ! 1))
            then None else Some (js ''Partial match''))"
    by blast
  then have rest: "htmlToken asciiLower [ruleCD, ruleA, ruleAB] True (js ''ab'')
       = spanHTML (color ruleA) (spanTextColor (color ruleA)) (js ''ab'') partialIndicatorHTML
   \<and> highlightToken asciiLower [ruleCD, ruleA, ruleAB] True (js ''Partial match'') ([], 0) (js ''ab'')
       = ([] @ [HighlightSpan 0 (color ruleA) (spanTextColor (color ruleA)) (js ''ab'')
                  (Some (js ''Partial match''))], 0 + 1)
   \<and> applyHighlightsToHTML asciiLower (js ''cd ab'') [ruleCD, ruleA, ruleAB] True
       = concat (map (htmlToken asciiLower [ruleCD, ruleA, ruleAB] True)
                   (take 2 (matchTokens (js ''cd ab''))))
         @ spanHTML (color ruleA) (spanTextColor (color ruleA)) (js ''ab'') partialIndicatorHTML
         @ concat (map (htmlToken asciiLower [ruleCD, ruleA, ruleAB] True)
                     (drop (Suc 2) (matchTokens (js ''cd ab''))))
   \<and> length (applyHighlights asciiLower (js ''cd ab'') [ruleCD, ruleA, ruleAB] True
        (js ''Partial match'')) = length (matchTokens (js ''cd ab''))
   \<and> applyHighlights asciiLower (js ''cd ab'') [ruleCD, ruleA, ruleAB] True (js ''Partial match'') ! 2
       = HighlightSpan 1 (color ruleA) (spanTextColor (color ruleA)) (js ''ab'')
           (Some (js ''Partial match''))"
    by (simp only: at asciiLower_ab_ruleA if_False highlighted_before_ab)
  from a b rest show ?thesis by (intro conjI) blast+
qed

text \<open>
  The claim as it is written fails for a rule behind the first matching one: the second
  rule \<open>ab\<close> matches the token \<open>ab\<close> exactly, and the token is highlighted by the first
  rule \<open>a\<close>, in its colour and as a partial match.
\<close>

theorem C1_counterexample:
  "\<not> isWhitespaceToken (js ''ab'')
   \<and> matchTokens (js ''ab'') = [js ''ab'']
   \<and> specMatch asciiLower True (js ''ab'') ([ruleA, ruleAB] ! 1)
   \<and> \<not> htmlHighlightedBy asciiLower True (js ''ab'') [ruleA, ruleAB] 1
   \<and> \<not> reactHighlightedBy asciiLower True (js ''Partial match'') (js ''ab'') [ruleA, ruleAB] 1
   \<and> applyHighlightsToHTML asciiLower (js ''ab'') [ruleA, ruleAB] True
       = spanHTML (js ''#FFEB3B'') (js ''#000000'') (js ''ab'') partialIndicatorHTML
   \<and> applyHighlights asciiLower (js ''ab'') [ruleA, ruleAB] True (js ''Partial match'')
       = [HighlightSpan 0 (js ''#FFEB3B'') (js ''#000000'') (js ''ab'') (Some (js ''Partial match''))]"
proof -
  have t: "matchTokens (js ''ab'') = [js ''ab'']"
    by (simp add: js_def isWhiteSpace_def)
  have a: "specMatch asciiLower True (js ''ab'') ([ruleA, ruleAB] ! 1)"
    by (simp add: specMatch_ab_ruleAB)
  have first: "htmlToken asciiLower (take 1 [ruleA, ruleAB]) True (js ''ab'') \<noteq> js ''ab''"
    by (simp add: htmlToken_plain_iff [OF not_whitespace_ab] specMatch_ab_ruleA)
  then have b: "\<not> htmlHighlightedBy asciiLower True (js ''ab'') [ruleA, ruleAB] 1"
    by (simp add: htmlHighlightedBy_def)
  have "highlightToken asciiLower (take 1 [ruleA, ruleAB]) True (js ''Partial match'') ([], 0)
      (js ''ab'') \<noteq> ([] @ [TextNode (js ''ab'')], 0)"
    by (simp only: highlightToken_plain_iff [OF not_whitespace_ab])
       (simp add: specMatch_ab_ruleA)
  then have c: "\<not> reactHighlightedBy asciiLower True (js ''Partial match'') (js ''ab'')
      [ruleA, ruleAB] 1"
    by (simp add: reactHighlightedBy_def)
  have d: "applyHighlightsToHTML asciiLower (js ''ab'') [ruleA, ruleAB] True
       = spanHTML (js ''#FFEB3B'') (js ''#000000'') (js ''ab'') partialIndicatorHTML"
    by (simp add: applyHighlightsToHTML_def htmlToken_def isWhitespaceToken_def isWhiteSpace_def
          ruleA_def ruleAB_def asciiLower_def js_def spanTextColor_def HIGHLIGHT_COLORS_def)
  have e: "applyHighlights asciiLower (js ''ab'') [ruleA, ruleAB] True (js ''Partial match'')
       = [HighlightSpan 0 (js ''#FFEB3B'') (js ''#000000'') (js ''ab'') (Some (js ''Partial match''))]"
    by (simp add: applyHighlights_def highlightToken_def isWhitespaceToken_def isWhiteSpace_def
          ruleA_def ruleAB_def asciiLower_def js_def spanTextColor_def HIGHLIGHT_COLORS_def)
  from not_whitespace_ab t a b c d e show ?thesis by (intro conjI)
qed



text \<open>
  Claim C5. For a highlighted token (not white space, with \<open>r\<close> the winning rule, the first
  rule of the list that matches it), the indicator is attached exactly when \<open>r\<close> matched
  partially. The callback of \<open>applyHighlightsToHTML\<close> returns the \<open>span\<close> with the
  indicator markup (which is not empty) in that case and without it otherwise; the
  callback of \<open>applyHighlights\<close> pushes the element with the inner indicator element in
  that case and without it otherwise; and so it is at the token's place in the outputs of
  both functions. A token highlighted by an exact match has no indicator in either.
\<close>

theorem C5_partial_indicator:
  "find (specMatch lc pm tok) rules = Some r \<Longrightarrow> \<not> isWhitespaceToken tok \<Longrightarrow>
     htmlToken lc rules pm tok
       = spanOpenHTML (color r) (spanTextColor (color r)) @ tok
         @ (if specPartialMatch lc pm tok r then partialIndicatorHTML else []) @ spanCloseHTML
     \<and> highlightToken lc rules pm tip (parts, k) tok
       = (parts @ [HighlightSpan k (color r) (spanTextColor (color r)) tok
                     (if specPartialMatch lc pm tok r then Some tip else None)], k + 1)
     \<and> partialIndicatorHTML \<noteq> []
     \<and> (lc tok = lc (word r) \<longrightarrow>
          htmlToken lc rules pm tok
            = spanOpenHTML (color r) (spanTextColor (color r)) @ tok @ spanCloseHTML
          \<and> highlightToken lc rules pm tip (parts, k) tok
            = (parts @ [HighlightSpan k (color r) (spanTextColor (color r)) tok None], k + 1))
     \<and> (n < length (matchTokens inp) \<and> matchTokens inp ! n = tok \<longrightarrow>
          applyHighlightsToHTML lc inp rules pm
            = concat (map (htmlToken lc rules pm) (take n (matchTokens inp)))
              @ (spanOpenHTML (color r) (spanTextColor (color r)) @ tok
                 @ (if specPartialMatch lc pm tok r then partialIndicatorHTML else [])
                 @ spanCloseHTML)
              @ concat (map (htmlToken lc rules pm) (drop (Suc n) (matchTokens inp)))
          \<and> indicatorTitle (applyHighlights lc inp rules pm tip ! n)
            = (if specPartialMatch lc pm tok r then Some tip else None)
          \<and> applyHighlights lc inp rules pm tip ! n
            = HighlightSpan
                (length (filter (specHighlighted lc rules pm) (take n (matchTokens inp))))
                (color r) (spanTextColor (color r)) tok
                (if specPartialMatch lc pm tok r then Some tip else None))"
proof -
  assume f: "find (specMatch lc pm tok) rules = Some r" and tok: "\<not> isWhitespaceToken tok"
  from f have "specMatch lc pm tok r" by (auto simp: find_Some_iff)
  then have p: "specPartialMatch lc pm tok r \<longleftrightarrow> lc tok \<noteq> lc (word r)"
    by (auto simp: specMatch_def specPartialMatch_def)
  note fm = first_match_rendering [OF tok f]
  have html: "htmlToken lc rules pm tok
       = spanOpenHTML (color r) (spanTextColor (color r)) @ tok
         @ (if specPartialMatch lc pm tok r then partialIndicatorHTML else []) @ spanCloseHTML"
    using fm(1) by (simp add: spanHTML_def p)
  have react: "highlightToken lc rules pm tip (parts, k) tok
       = (parts @ [HighlightSpan k (color r) (spanTextColor (color r)) tok
                     (if specPartialMatch lc pm tok r then Some tip else None)], k + 1)"
    using fm(2) [of tip parts k] by (simp add: p)
  have nonempty: "partialIndicatorHTML \<noteq> []"
    by (simp add: partialIndicatorHTML_def)
  have exact: "lc tok = lc (word r) \<longrightarrow>
          htmlToken lc rules pm tok
            = spanOpenHTML (color r) (spanTextColor (color r)) @ tok @ spanCloseHTML
          \<and> highlightToken lc rules pm tip (parts, k) tok
            = (parts @ [HighlightSpan k (color r) (spanTextColor (color r)) tok None], k + 1)"
    using html react p by simp
  have top: "n < length (matchTokens inp) \<and> matchTokens inp ! n = tok \<longrightarrow>
          applyHighlightsToHTML lc inp rules pm
            = concat (map (htmlToken lc rules pm) (take n (matchTokens inp)))
              @ (spanOpenHTML (color r) (spanTextColor (color r)) @ tok
                 @ (if specPartialMatch lc pm tok r then partialIndicatorHTML else [])
                 @ spanCloseHTML)
              @ concat (map (htmlToken lc rules pm) (drop (Suc n) (matchTokens inp)))
          \<and> indicatorTitle (applyHighlights lc inp rules pm tip ! n)
            = (if specPartialMatch lc pm tok r then Some tip else None)
          \<and> applyHighlights lc inp rules pm tip ! n
            = HighlightSpan
                (length (filter (specHighlighted lc rules pm) (take n (matchTokens inp))))
                (color r) (spanTextColor (color r)) tok
                (if specPartialMatch lc pm tok r then Some tip else None)"
    using fm(3) [of n inp tip] by (simp add: spanHTML_def p)
  from html react nonempty exact top show ?thesis
    by (intro conjI)
qed

text \<open>
  In the text \<open>cd ab\<close>: with the rules \<open>cd\<close>, \<open>ab\<close> the token \<open>ab\<close> is an exact match of the
  rule \<open>ab\<close> and has no indicator; with the rules \<open>cd\<close>, \<open>a\<close> it is a partial match of the
  stem \<open>a\<close> and has the indicator.
\<close>

theorem C5_partial_indicator_witness:
  "find (specMatch asciiLower True (js ''ab'')) [ruleCD, ruleAB] = Some ruleAB
   \<and> \<not> isWhitespaceToken (js ''ab'')
   \<and> \<not> specPartialMatch asciiLower True (js ''ab'') ruleAB
   \<and> htmlToken asciiLower [ruleCD, ruleAB] True (js ''ab'')
       = spanOpenHTML (color ruleAB) (spanTextColor (color ruleAB)) @ js ''ab'' @ [] @ spanCloseHTML
   \<and> highlightToken asciiLower [ruleCD, ruleAB] True (js ''Partial match'') ([], 0) (js ''ab'')
       = ([] @ [HighlightSpan 0 (color ruleAB) (spanTextColor (color ruleAB)) (js ''ab'') None],
          0 + 1)
   \<and> applyHighlights asciiLower (js ''cd ab'') [ruleCD, ruleAB] True (js ''Partial match'') ! 2
       = HighlightSpan 1 (color ruleAB) (spanTextColor (color ruleAB)) (js ''ab'') None
   \<and> find (specMatch asciiLower True (js ''ab'')) [ruleCD, ruleA] = Some ruleA
   \<and> specPartialMatch asciiLower True (js ''ab'') ruleA
   \<and> htmlToken asciiLower [ruleCD, ruleA] True (js ''ab'')
       = spanOpenHTML (color ruleA) (spanTextColor (color ruleA)) @ js ''ab''
         @ partialIndicatorHTML @ spanCloseHTML
   \<and> applyHighlights asciiLower (js ''cd ab'') [ruleCD, ruleA] True (js ''Partial match'') ! 2
       = HighlightSpan 1 (color ruleA) (spanTextColor (color ruleA)) (js ''ab'')
           (Some (js ''Partial match''))"
proof -
  note exact = C5_partial_indicator [OF find_ab_example not_whitespace_ab,
      of "js ''Partial match''" "[]" 0 2 "js ''cd ab''"]
  note partial = C5_partial_indicator [OF find_ab_example_partial not_whitespace_ab,
      of "js ''Partial match''" "[]" 0 2 "js ''cd ab''"]
  from exact have "htmlToken asciiLower [ruleCD, ruleAB] True (js ''ab'')
       = spanOpenHTML (color ruleAB) (spanTextColor (color ruleAB)) @ js ''ab''
         @ (if specPartialMatch asciiLower True (js ''ab'') ruleAB then partialIndicatorHTML
            else []) @ spanCloseHTML"
    by (rule conjunct1)
  then have a: "htmlToken asciiLower [ruleCD, ruleAB] True (js ''ab'')
       = spanOpenHTML (color ruleAB) (spanTextColor (color ruleAB)) @ js ''ab'' @ [] @ spanCloseHTML"
    by (simp only: specPartialMatch_ab_ruleAB if_False)
  from exact have "highlightToken asciiLower [ruleCD, ruleAB] True (js ''Partial match'') ([], 0)
        (js ''ab'')
       = ([] @ [HighlightSpan 0 (color ruleAB) (spanTextColor (color ruleAB)) (js ''ab'')
                  (if specPartialMatch asciiLower True (js ''ab'') ruleAB
                   then Some (js ''Partial match'') else None)], 0 + 1)"
    by (rule conjunct2 [THEN conjunct1])
  then have b: "highlightToken asciiLower [ruleCD, ruleAB] True (js ''Partial match'') ([], 0)
        (js ''ab'')
       = ([] @ [HighlightSpan 0 (color ruleAB) (spanTextColor (color ruleAB)) (js ''ab'') None],
          0 + 1)"
    by (simp only: specPartialMatch_ab_ruleAB if_False)
  from exact token_ab_at_2
  have "applyHighlights asciiLower (js ''cd ab'') [ruleCD, ruleAB] True (js ''Partial match'') ! 2
       = HighlightSpan
           (length (filter (specHighlighted asciiLower [ruleCD, ruleAB] True)
                      (take 2 (matchTokens (js ''cd ab'')))))
           (color ruleAB) (spanTextColor (color ruleAB)) (js ''ab'')
           (if specPartialMatch asciiLower True (js ''ab'') ruleAB
            then Some (js ''Partial match'') else None)"
    by blast
  then have c: "applyHighlights asciiLower (js ''cd ab'') [ruleCD, ruleAB] True
        (js ''Partial match'') ! 2
       = HighlightSpan 1 (color ruleAB) (spanTextColor (color ruleAB)) (js ''ab'') None"
    by (simp only: specPartialMatch_ab_ruleAB if_False highlighted_before_ab)
  from partial have "htmlToken asciiLower [ruleCD, ruleA] True (js ''ab'')
       = spanOpenHTML (color ruleA) (spanTextColor (color ruleA)) @ js ''ab''
         @ (if specPartialMatch asciiLower True (js ''ab'') ruleA then partialIndicatorHTML
            else []) @ spanCloseHTML"
    by (rule conjunct1)
  then have d: "htmlToken asciiLower [ruleCD, ruleA] True (js ''ab'')
       = spanOpenHTML (color ruleA) (spanTextColor (color ruleA)) @ js ''ab''
         @ partialIndicatorHTML @ spanCloseHTML"
    by (simp only: specPartialMatch_ab_ruleA if_True)
  from partial token_ab_at_2
  have "applyHighlights asciiLower (js ''cd ab'') [ruleCD, ruleA] True (js ''Partial match'') ! 2
       = HighlightSpan
           (length (filter (specHighlighted asciiLower [ruleCD, ruleA] True)
                      (take 2 (matchTokens (js ''cd ab'')))))
           (color ruleA) (spanTextColor (color ruleA)) (js ''ab'')
           (if specPartialMatch asciiLower True (js ''ab'') ruleA
            then Some (js ''Partial match'') else None)"
    by blast
  then have e: "applyHighlights asciiLower (js ''cd ab'') [ruleCD, ruleA] True
        (js ''Partial match'') ! 2
       = HighlightSpan 1 (color ruleA) (spanTextColor (color ruleA)) (js ''ab'')
           (Some (js ''Partial match''))"
    by (simp only: specPartialMatch_ab_ruleA if_True highlighted_before_ab)
  from find_ab_example not_whitespace_ab specPartialMatch_ab_ruleAB a b c
    find_ab_example_partial specPartialMatch_ab_ruleA d e
  show ?thesis by (intro conjI)
qed

section \<open>Properties of the settings\<close>

lemma addHighlightRule_state:
  "highlightRules (fst (addHighlightRule S now w c (st, storage)))
     = highlightRules st @ [\<lparr>rule_id = now, word = trim w, color = c\<rparr>]"
  by (simp add: addHighlightRule_def Let_def)

lemma addHighlightRule_loaded:
  "P (S (highlightRules st @ [\<lparr>rule_id = now, word = trim w, color = c\<rparr>]))
       = Some (highlightRules st @ [\<lparr>rule_id = now, word = trim w, color = c\<rparr>]) \<Longrightarrow>
   S (highlightRules st @ [\<lparr>rule_id = now, word = trim w, color = c\<rparr>]) \<noteq> [] \<Longrightarrow>
     highlightRules (loadOnMount P (snd (addHighlightRule S now w c (st, storage))))
       = highlightRules st @ [\<lparr>rule_id = now, word = trim w, color = c\<rparr>]"
  by (simp add: loadOnMount_fields addHighlightRule_def getItem_def setItem_def Let_def)

lemma removeHighlightRule_state:
  "highlightRules (fst (removeHighlightRule S i (st, storage)))
     = filter (\<lambda>rule. rule_id rule \<noteq> i) (highlightRules st)"
  by (simp add: removeHighlightRule_def Let_def)

lemma removeHighlightRule_loaded:
  "P (S (filter (\<lambda>rule. rule_id rule \<noteq> i) (highlightRules st)))
       = Some (filter (\<lambda>rule. rule_id rule \<noteq> i) (highlightRules st)) \<Longrightarrow>
   S (filter (\<lambda>rule. rule_id rule \<noteq> i) (highlightRules st)) \<noteq> [] \<Longrightarrow>
     highlightRules (loadOnMount P (snd (removeHighlightRule S i (st, storage))))
       = filter (\<lambda>rule. rule_id rule \<noteq> i) (highlightRules st)"
  by (simp add: loadOnMount_fields removeHighlightRule_def getItem_def setItem_def Let_def)

text \<open>
  Claim C7. Every setting comes back from \<open>localStorage\<close>: after an updater has run, the
  effect on mount (run on the storage the updater left, from the initial state) sets the
  state variable to the value the updater was given. The language is stored as \<open>'en'\<close> or
  \<open>'fi'\<close>, a toggle as \<open>String(value)\<close> and read by comparison with \<open>'true'\<close>, the
  microphone id and the API key as they are (the empty string is not taken, or not stored,
  and is the initial value), the rule list as its JSON text. For the rule list, with any
  two functions in the place of \<open>JSON.stringify\<close> and \<open>JSON.parse\<close>, the list comes
  back when the second gives back the saved list from the text of the first and that
  text is not empty; with the JSON text of a rule list and its parser (\<open>stringifyRules\<close>
  and \<open>parseRules\<close>) this is so for every list.
\<close>

theorem C7_settings_round_trip:
  "language (loadOnMount JSON_parse (snd (updateLanguage lang (st, storage)))) = lang
   \<and> getItem (snd (updateLanguage lang (st, storage))) ''language'' = Some (languageString lang)
   \<and> apiKey (loadOnMount JSON_parse (snd (updateApiKey k (st, storage)))) = k
   \<and> echoCancellation (loadOnMount JSON_parse (snd (updateEchoCancellation b (st, storage)))) = b
   \<and> getItem (snd (updateEchoCancellation b (st, storage))) ''echo_cancellation''
        = Some (if b then js ''true'' else js ''false'')
   \<and> noiseSuppression (loadOnMount JSON_parse (snd (updateNoiseSuppression b (st, storage)))) = b
   \<and> selectedMicrophoneId (loadOnMount JSON_parse (snd (updateMicrophone deviceId (st, storage))))
        = deviceId
   \<and> partialMatchHighlight
        (loadOnMount JSON_parse (snd (updatePartialMatchHighlight b (st, storage)))) = b
   \<and> newestFirst (loadOnMount JSON_parse (snd (updateNewestFirst b (st, storage)))) = b
   \<and> (let updated = highlightRules st @ [\<lparr>rule_id = now, word = trim w, color = c\<rparr>]
      in highlightRules (fst (addHighlightRule JSON_stringify now w c (st, storage))) = updated
         \<and> (JSON_parse (JSON_stringify updated) = Some updated \<and> JSON_stringify updated \<noteq> [] \<longrightarrow>
              highlightRules
                (loadOnMount JSON_parse (snd (addHighlightRule JSON_stringify now w c (st, storage))))
              = updated)
         \<and> highlightRules
              (loadOnMount parseRules (snd (addHighlightRule stringifyRules now w c (st, storage))))
            = updated)
   \<and> (let updated = filter (\<lambda>rule. rule_id rule \<noteq> i) (highlightRules st)
      in highlightRules (fst (removeHighlightRule JSON_stringify i (st, storage))) = updated
         \<and> (JSON_parse (JSON_stringify updated) = Some updated \<and> JSON_stringify updated \<noteq> [] \<longrightarrow>
              highlightRules
                (loadOnMount JSON_parse (snd (removeHighlightRule JSON_stringify i (st, storage))))
              = updated)
         \<and> highlightRules
              (loadOnMount parseRules (snd (removeHighlightRule stringifyRules i (st, storage))))
            = updated)"
proof -
  have ne: "js ''en'' \<noteq> js ''fi''" "js ''true'' \<noteq> js ''false''"
    by (simp_all add: js_def)
  have lang: "language (loadOnMount JSON_parse (snd (updateLanguage lang (st, storage)))) = lang"
    using ne by (cases lang)
      (simp_all add: loadOnMount_fields updateLanguage_def getItem_def setItem_def)
  have lang_stored:
    "getItem (snd (updateLanguage lang (st, storage))) ''language'' = Some (languageString lang)"
    by (simp add: updateLanguage_def getItem_def setItem_def)
  have key: "apiKey (loadOnMount JSON_parse (snd (updateApiKey k (st, storage)))) = k"
    by (simp add: loadOnMount_fields updateApiKey_def getItem_def setItem_def removeItem_def)
  have echo: "echoCancellation
        (loadOnMount JSON_parse (snd (updateEchoCancellation b (st, storage)))) = b"
    using ne by (simp add: loadOnMount_fields updateEchoCancellation_def getItem_def setItem_def
        booleanString_def)
  have echo_stored: "getItem (snd (updateEchoCancellation b (st, storage))) ''echo_cancellation''
        = Some (if b then js ''true'' else js ''false'')"
    by (simp add: updateEchoCancellation_def getItem_def setItem_def booleanString_def)
  have noise: "noiseSuppression
        (loadOnMount JSON_parse (snd (updateNoiseSuppression b (st, storage)))) = b"
    using ne by (simp add: loadOnMount_fields updateNoiseSuppression_def getItem_def setItem_def
        booleanString_def)
  have mic: "selectedMicrophoneId
        (loadOnMount JSON_parse (snd (updateMicrophone deviceId (st, storage)))) = deviceId"
    by (simp add: loadOnMount_fields updateMicrophone_def getItem_def setItem_def)
  have partial: "partialMatchHighlight
        (loadOnMount JSON_parse (snd (updatePartialMatchHighlight b (st, storage)))) = b"
    using ne by (simp add: loadOnMount_fields updatePartialMatchHighlight_def getItem_def
        setItem_def booleanString_def)
  have newest: "newestFirst (loadOnMount JSON_parse (snd (updateNewestFirst b (st, storage)))) = b"
    using ne by (simp add: loadOnMount_fields updateNewestFirst_def getItem_def setItem_def
        booleanString_def)
  have add: "let updated = highlightRules st @ [\<lparr>rule_id = now, word = trim w, color = c\<rparr>]
      in highlightRules (fst (addHighlightRule JSON_stringify now w c (st, storage))) = updated
         \<and> (JSON_parse (JSON_stringify updated) = Some updated \<and> JSON_stringify updated \<noteq> [] \<longrightarrow>
              highlightRules
                (loadOnMount JSON_parse (snd (addHighlightRule JSON_stringify now w c (st, storage))))
              = updated)
         \<and> highlightRules
              (loadOnMount parseRules (snd (addHighlightRule stringifyRules now w c (st, storage))))
            = updated"
    unfolding Let_def
    using addHighlightRule_state [of JSON_stringify now w c st storage]
      addHighlightRule_loaded [of JSON_parse JSON_stringify st now w c storage]
      addHighlightRule_loaded [of parseRules stringifyRules st now w c storage,
        OF parseRules_stringifyRules stringifyRules_nonempty]
    by blast
  have remove: "let updated = filter (\<lambda>rule. rule_id rule \<noteq> i) (highlightRules st)
      in highlightRules (fst (removeHighlightRule JSON_stringify i (st, storage))) = updated
         \<and> (JSON_parse (JSON_stringify updated) = Some updated \<and> JSON_stringify updated \<noteq> [] \<longrightarrow>
              highlightRules
                (loadOnMount JSON_parse (snd (removeHighlightRule JSON_stringify i (st, storage))))
              = updated)
         \<and> highlightRules
              (loadOnMount parseRules (snd (removeHighlightRule stringifyRules i (st, storage))))
            = updated"
    unfolding Let_def
    using removeHighlightRule_state [of JSON_stringify i st storage]
      removeHighlightRule_loaded [of JSON_parse JSON_stringify i st storage]
      removeHighlightRule_loaded [of parseRules stringifyRules i st storage,
        OF parseRules_stringifyRules stringifyRules_nonempty]
    by blast
  from lang lang_stored key echo echo_stored noise mic partial newest add remove
  show ?thesis by (intro conjI)
qed

lemma trim_example: "trim (js '' a '') = js ''a''"
  by (simp add: trim_def isWhiteSpace_def js_def)

lemma stringifyRules_example:
  \<open>stringifyRules [\<lparr>rule_id = js ''1'', word = js ''a'', color = js ''#FFEB3B''\<rparr>]
     = js ''[{"id":"1","word":"a","color":"#FFEB3B"}]''\<close>
  by (simp add: stringifyRules_def stringifyRule_def quoteJSONString_def quoteCodeUnit_def
        isLeadSurrogate_def isTrailSurrogate_def js_def)

lemma parseRules_example:
  \<open>parseRules (js ''[{"id":"1","word":"a","color":"#FFEB3B"}]'')
     = Some [\<lparr>rule_id = js ''1'', word = js ''a'', color = js ''#FFEB3B''\<rparr>]\<close>
  by (simp add: parseRules_def parseRule_def expect_def js_def)

text \<open>
  Adding the rule \<open>a\<close> (typed with spaces around it) to the initial settings stores the
  JSON text of the one-rule list, and the effect on mount reads that list back.
\<close>

theorem C7_settings_round_trip_witness:
  \<open>stringifyRules [\<lparr>rule_id = js ''1'', word = js ''a'', color = js ''#FFEB3B''\<rparr>]
     = js ''[{"id":"1","word":"a","color":"#FFEB3B"}]''
   \<and> parseRules (stringifyRules [\<lparr>rule_id = js ''1'', word = js ''a'', color = js ''#FFEB3B''\<rparr>])
     = Some [\<lparr>rule_id = js ''1'', word = js ''a'', color = js ''#FFEB3B''\<rparr>]
   \<and> highlightRules
        (loadOnMount parseRules
          (snd (addHighlightRule stringifyRules (js ''1'') (js '' a '') (js ''#FFEB3B'')
                  (initialSettings, Map.empty))))
     = [\<lparr>rule_id = js ''1'', word = js ''a'', color = js ''#FFEB3B''\<rparr>]
   \<and> language (loadOnMount parseRules (snd (updateLanguage Fi (initialSettings, Map.empty)))) = Fi
   \<and> selectedMicrophoneId
        (loadOnMount parseRules (snd (updateMicrophone [] (initialSettings, Map.empty)))) = []\<close>
proof -
  let ?rule = "\<lparr>rule_id = js ''1'', word = js ''a'', color = js ''#FFEB3B''\<rparr>"
  note c7 = C7_settings_round_trip [of parseRules Fi initialSettings Map.empty "[]" True "[]"
      "js ''1''" "js '' a ''" "js ''#FFEB3B''" stringifyRules "[]"]
  have upd: "highlightRules initialSettings @ [\<lparr>rule_id = js ''1'', word = trim (js '' a ''),
      color = js ''#FFEB3B''\<rparr>] = [?rule]"
    by (simp add: initialSettings_def trim_example)
  have rt: "parseRules (stringifyRules [?rule]) = Some [?rule]"
    by (simp only: stringifyRules_example parseRules_example)
  have nonempty: "stringifyRules [?rule] \<noteq> []"
    by (simp add: stringifyRules_def js_def)
  from c7 have "let updated = highlightRules initialSettings
          @ [\<lparr>rule_id = js ''1'', word = trim (js '' a ''), color = js ''#FFEB3B''\<rparr>]
      in highlightRules (fst (addHighlightRule stringifyRules (js ''1'') (js '' a '')
             (js ''#FFEB3B'') (initialSettings, Map.empty))) = updated
         \<and> (parseRules (stringifyRules updated) = Some updated \<and> stringifyRules updated \<noteq> [] \<longrightarrow>
              highlightRules
                (loadOnMount parseRules (snd (addHighlightRule stringifyRules (js ''1'') (js '' a '')
                   (js ''#FFEB3B'') (initialSettings, Map.empty))))
              = updated)
         \<and> highlightRules
              (loadOnMount parseRules (snd (addHighlightRule stringifyRules (js ''1'') (js '' a '')
                 (js ''#FFEB3B'') (initialSettings, Map.empty))))
            = updated"
    by (elim conjE)
  with rt nonempty have a: "highlightRules
        (loadOnMount parseRules
          (snd (addHighlightRule stringifyRules (js ''1'') (js '' a '') (js ''#FFEB3B'')
                  (initialSettings, Map.empty)))) = [?rule]"
    by (simp only: upd Let_def)
  from c7 have b: "language (loadOnMount parseRules (snd (updateLanguage Fi (initialSettings, Map.empty)))) = Fi"
    by (rule conjunct1)
  from c7 have c: "selectedMicrophoneId
        (loadOnMount parseRules (snd (updateMicrophone [] (initialSettings, Map.empty)))) = []"
    by (elim conjE)
  from stringifyRules_example rt a b c show ?thesis
    by (intro conjI)
qed







section \<open>Properties of the exports and of the transcript list\<close>

lemma replaceQuotes_concat:
  "replaceQuotes s = concat (map (\<lambda>c. if c = 0x22 then [0x22, 0x22] else [c]) s)"
  by (induction s) simp_all

text \<open>
  Claim C6. The string that \<open>exportAsCSV\<close> gives to the \<open>Blob\<close> is the byte-order mark
  U+FEFF, the header line \<open>Timestamp,Text\<close>, and for each transcript item, in the order
  of the list, a line feed followed by the item's timestamp, a comma, and the item's text
  between quotation marks with every quotation mark of the text doubled.
\<close>

theorem C6_csv_content:
  "blobContent (exportAsCSV isoNow transcripts filename)
     = [0xFEFF] @ js ''Timestamp,Text''
       @ concat (map (\<lambda>item. [0x0A] @ timestamp item @ js '','' @ [0x22]
                        @ concat (map (\<lambda>c. if c = 0x22 then [0x22, 0x22] else [c]) (item_text item))
                        @ [0x22])
                  transcripts)"
proof -
  let ?line = "\<lambda>item. timestamp item @ js '','' @ [0x22]
        @ concat (map (\<lambda>c. if c = 0x22 then [0x22, 0x22] else [c]) (item_text item)) @ [0x22]"
  have header: "joinArray (js '','') [js ''Timestamp'', js ''Text''] = js ''Timestamp,Text''"
    by (simp add: js_def)
  have rows: "map (\<lambda>row. joinArray (js '','') row) (csvRows transcripts) = map ?line transcripts"
    by (simp add: csvRows_def comp_def replaceQuotes_concat)
  have "csvContent transcripts
      = joinArray [0x0A] (js ''Timestamp,Text'' # map ?line transcripts)"
    by (simp only: csvContent_def Let_def header rows append_Cons append_Nil)
  also have "\<dots> = js ''Timestamp,Text'' @ concat (map (\<lambda>y. [0x0A] @ y) (map ?line transcripts))"
    by (rule joinArray_Cons)
  also have "\<dots> = js ''Timestamp,Text'' @ concat (map (\<lambda>item. [0x0A] @ ?line item) transcripts)"
    by (simp add: comp_def)
  finally show ?thesis
    by (simp add: exportAsCSV_def)
qed

theorem C6_csv_content_witness:
  \<open>blobContent (exportAsCSV (js ''2025-11-30T09:05:00.000Z'') [exampleItem, exampleItem]
       (js ''transcripts''))
     = [0xFEFF] @ js ''Timestamp,Text'' @ [0x0A] @ js ''14:30:45,"say ""hi"""''
       @ [0x0A] @ js ''14:30:45,"say ""hi"""''\<close>
  using C6_csv_content [of "js ''2025-11-30T09:05:00.000Z''" "[exampleItem, exampleItem]"
      "js ''transcripts''"]
  by (simp add: exampleItem_def js_def)

text \<open>
  Claim C10. \<open>exportAsPDF\<close> returns \<open>false\<close> exactly when \<open>window.open\<close> returned \<open>null\<close>,
  and then it has done nothing else; with a window it returns \<open>true\<close>, after writing the
  document to the window.
\<close>

theorem C10_pdf_result:
  "(fst (exportAsPDF lc printWindow now transcripts title confirmedTitle dateLabel totalLabel
           rules pm) = False) = (printWindow = None)
   \<and> exportAsPDF lc None now transcripts title confirmedTitle dateLabel totalLabel rules pm
       = (False, [])
   \<and> exportAsPDF lc (Some w) now transcripts title confirmedTitle dateLabel totalLabel rules pm
       = (True, [DocumentWrite w (htmlContent lc now transcripts confirmedTitle dateLabel
                    totalLabel rules pm), DocumentClose w, SetOnload w])"
  by (simp add: exportAsPDF_def split: option.splits)

theorem C10_pdf_result_witness:
  "exportAsPDF asciiLower (None :: nat option) exampleClock [exampleItem] (js ''comLedger'')
       (js ''Confirmed Transcripts'') (js ''Date'') (js ''Total Transcripts'') [ruleA] True
     = (False, [])
   \<and> fst (exportAsPDF asciiLower (Some (1 :: nat)) exampleClock [exampleItem] (js ''comLedger'')
       (js ''Confirmed Transcripts'') (js ''Date'') (js ''Total Transcripts'') [ruleA] True)
     = True
   \<and> length (snd (exportAsPDF asciiLower (Some (1 :: nat)) exampleClock [exampleItem]
       (js ''comLedger'') (js ''Confirmed Transcripts'') (js ''Date'') (js ''Total Transcripts'')
       [ruleA] True)) = 3"
proof -
  note none = C10_pdf_result [of asciiLower "None :: nat option" exampleClock "[exampleItem]"
      "js ''comLedger''" "js ''Confirmed Transcripts''" "js ''Date''" "js ''Total Transcripts''"
      "[ruleA]" True 1]
  from none have a: "exportAsPDF asciiLower (None :: nat option) exampleClock [exampleItem]
       (js ''comLedger'') (js ''Confirmed Transcripts'') (js ''Date'') (js ''Total Transcripts'')
       [ruleA] True = (False, [])"
    by (rule conjunct2 [THEN conjunct1])
  from none have "exportAsPDF asciiLower (Some (1 :: nat)) exampleClock [exampleItem]
       (js ''comLedger'') (js ''Confirmed Transcripts'') (js ''Date'') (js ''Total Transcripts'')
       [ruleA] True
     = (True, [DocumentWrite 1 (htmlContent asciiLower exampleClock [exampleItem]
                  (js ''Confirmed Transcripts'') (js ''Date'') (js ''Total Transcripts'') [ruleA]
                  True), DocumentClose 1, SetOnload 1])"
    by (rule conjunct2 [THEN conjunct2])
  then have b: "fst (exportAsPDF asciiLower (Some (1 :: nat)) exampleClock [exampleItem]
       (js ''comLedger'') (js ''Confirmed Transcripts'') (js ''Date'') (js ''Total Transcripts'')
       [ruleA] True) = True"
    and c: "length (snd (exportAsPDF asciiLower (Some (1 :: nat)) exampleClock [exampleItem]
       (js ''comLedger'') (js ''Confirmed Transcripts'') (js ''Date'') (js ''Total Transcripts'')
       [ruleA] True)) = 3"
    by simp_all
  from a b c show ?thesis by (intro conjI)
qed

lemma pdfFilename_example: "pdfFilename exampleClock = js ''comLedger_2025-11-30_09-05-00''"
  by (simp add: pdfFilename_def exampleClock_def padStart2_def js_def)

lemma append_entry_distinct:
  "distinct (map entry_text prev) \<Longrightarrow>
     distinct (map entry_text
       (if list_ex (\<lambda>t. entry_text t = x) prev then prev
        else prev @ [\<lparr>entry_id = i, entry_text = x, entry_timestamp = c\<rparr>]))"
  by (auto simp: list_ex_iff)

lemma pageStep_distinct:
  "distinct (map entry_text (transcriptsWithTimestamps page)) \<Longrightarrow>
     distinct (map entry_text (transcriptsWithTimestamps (pageStep page ev)))"
proof (cases ev)
  case (Disconnect clock newId)
  assume d: "distinct (map entry_text (transcriptsWithTimestamps page))"
  from d append_entry_distinct [OF d, of "lastPartialTranscriptRef page" newId clock] Disconnect
  show ?thesis
    by (simp add: onDisconnect_def Let_def)
next
  case (PartialTranscript dataText)
  assume "distinct (map entry_text (transcriptsWithTimestamps page))"
  with PartialTranscript show ?thesis
    by (simp add: onPartialTranscript_def)
next
  case (CommittedTranscript dataText clock newId)
  assume d: "distinct (map entry_text (transcriptsWithTimestamps page))"
  from append_entry_distinct [OF d, of dataText newId clock] CommittedTranscript
  show ?thesis
    by (simp add: onCommittedTranscriptWithTimestamps_def Let_def)
next
  case (ClearTranscripts confirmed)
  assume "distinct (map entry_text (transcriptsWithTimestamps page))"
  with ClearTranscripts show ?thesis
    by (simp add: handleClearTranscripts_def)
qed

lemma foldl_pageStep_distinct:
  "distinct (map entry_text (transcriptsWithTimestamps page)) \<Longrightarrow>
     distinct (map entry_text (transcriptsWithTimestamps (foldl pageStep page events)))"
  by (induction events arbitrary: page) (simp_all add: pageStep_distinct)

text \<open>
  Claim C9. In every state that the page reaches from its initial state, the texts of the
  confirmed transcripts are pairwise distinct. The committed-transcript handler and the
  saving of the last partial transcript on disconnect leave the list as it is when an entry
  with the text exists, and append one entry otherwise; clearing empties the list.
\<close>

theorem C9_transcript_texts_distinct:
  "distinct (map entry_text (transcriptsWithTimestamps (runPage events)))
   \<and> (list_ex (\<lambda>t. entry_text t = dataText) (transcriptsWithTimestamps page) \<longrightarrow>
        transcriptsWithTimestamps (onCommittedTranscriptWithTimestamps dataText clock newId page)
          = transcriptsWithTimestamps page)
   \<and> (\<not> list_ex (\<lambda>t. entry_text t = dataText) (transcriptsWithTimestamps page) \<longrightarrow>
        transcriptsWithTimestamps (onCommittedTranscriptWithTimestamps dataText clock newId page)
          = transcriptsWithTimestamps page
              @ [\<lparr>entry_id = newId, entry_text = dataText, entry_timestamp = clock\<rparr>])
   \<and> (list_ex (\<lambda>t. entry_text t = lastPartialTranscriptRef page) (transcriptsWithTimestamps page) \<longrightarrow>
        transcriptsWithTimestamps (onDisconnect clock newId page) = transcriptsWithTimestamps page)
   \<and> (\<not> list_ex (\<lambda>t. entry_text t = lastPartialTranscriptRef page) (transcriptsWithTimestamps page)
        \<and> lastPartialTranscriptRef page \<noteq> [] \<and> trim (lastPartialTranscriptRef page) \<noteq> [] \<longrightarrow>
        transcriptsWithTimestamps (onDisconnect clock newId page)
          = transcriptsWithTimestamps page
              @ [\<lparr>entry_id = newId, entry_text = lastPartialTranscriptRef page,
                  entry_timestamp = clock\<rparr>])
   \<and> transcriptsWithTimestamps (handleClearTranscripts True page) = []"
proof -
  have "distinct (map entry_text (transcriptsWithTimestamps initialPage))"
    by (simp add: initialPage_def)
  then have "distinct (map entry_text (transcriptsWithTimestamps (runPage events)))"
    unfolding runPage_def by (rule foldl_pageStep_distinct)
  then show ?thesis
    by (simp add: onCommittedTranscriptWithTimestamps_def onDisconnect_def
          handleClearTranscripts_def Let_def)
qed

lemma runPage_example:
  "runPage exampleEvents =
     \<lparr>transcriptsWithTimestamps =
        [\<lparr>entry_id = js ''1'', entry_text = js ''a'', entry_timestamp = js ''10.00.01''\<rparr>,
         \<lparr>entry_id = js ''3'', entry_text = js ''b'', entry_timestamp = js ''10.00.03''\<rparr>],
      lastPartialTranscriptRef = []\<rparr>"
  by (simp add: runPage_def exampleEvents_def initialPage_def onDisconnect_def
        onPartialTranscript_def onCommittedTranscriptWithTimestamps_def trim_def
        isWhiteSpace_def js_def)

theorem C9_transcript_texts_distinct_witness:
  "list_ex (\<lambda>t. entry_text t = js ''a'') (transcriptsWithTimestamps (runPage exampleEvents))
   \<and> transcriptsWithTimestamps
        (onCommittedTranscriptWithTimestamps (js ''a'') (js ''10.00.04'') (js ''4'')
           (runPage exampleEvents))
       = transcriptsWithTimestamps (runPage exampleEvents)
   \<and> distinct (map entry_text (transcriptsWithTimestamps (runPage exampleEvents)))
   \<and> map entry_text (transcriptsWithTimestamps (runPage exampleEvents)) = [js ''a'', js ''b'']"
proof -
  have ex: "list_ex (\<lambda>t. entry_text t = js ''a'') (transcriptsWithTimestamps (runPage exampleEvents))"
    by (simp add: runPage_example)
  have texts: "map entry_text (transcriptsWithTimestamps (runPage exampleEvents)) = [js ''a'', js ''b'']"
    by (simp add: runPage_example)
  note c9 = C9_transcript_texts_distinct [of exampleEvents "js ''a''" "runPage exampleEvents"
      "js ''10.00.04''" "js ''4''"]
  from c9 have d: "distinct (map entry_text (transcriptsWithTimestamps (runPage exampleEvents)))"
    by (rule conjunct1)
  from c9 ex have same: "transcriptsWithTimestamps
        (onCommittedTranscriptWithTimestamps (js ''a'') (js ''10.00.04'') (js ''4'')
           (runPage exampleEvents))
       = transcriptsWithTimestamps (runPage exampleEvents)"
    by blast
  from ex same d texts show ?thesis by (intro conjI)
qed

end
